theory Spec2Isabelle
  imports Complex_Main
begin

section \<open>Data model of src/main.ts\<close>

text \<open>
  JavaScript numbers are modelled as exact reals: every statement below is about the
  arithmetic the program writes down, not about IEEE rounding.

  The program is built on two libraries, cannon-es (physics) and three.js (rendering),
  which are not part of the repository. Their objects are modelled by the fields that
  \<^verbatim>\<open>main.ts\<close> reads or writes; their algorithms (\<^verbatim>\<open>World.step\<close>,
  \<^verbatim>\<open>Vector3.unproject\<close>, \<^verbatim>\<open>Math.random\<close>, \<^verbatim>\<open>performance.now\<close>) are parameters
  of the functions that call them.
\<close>

datatype Vec3 = Vec3 (vx: real) (vy: real) (vz: real)

datatype Quaternion = Quaternion (qx: real) (qy: real) (qz: real) (qw: real)

text \<open>
  A \<^verbatim>\<open>CANNON.Sphere\<close> is its \<^verbatim>\<open>radius\<close>. The program reads that property from
  \<^verbatim>\<open>sphereShape\<close> and \<^verbatim>\<open>ballShape\<close> only, which are declared as spheres, so the
  radius of another shape is never asked for.
\<close>

datatype Sphere = Sphere (radius: real)

datatype Shape = SphereShape Sphere | Box Vec3 | Plane

text \<open>A \<^verbatim>\<open>CANNON.Material\<close> is identified by its name.\<close>

type_synonym Material = string

record ContactMaterial =
  materials :: "Material \<times> Material"
  friction :: real
  restitution :: real

record Body =
  mass :: real
  material :: "Material option"
  shapes :: "Shape list"
  position :: Vec3
  quaternion :: Quaternion
  velocity :: Vec3
  linearDamping :: real
  angularDamping :: real

text \<open>
  A reference to a body object: a body owned by the world is named by its index in
  \<^verbatim>\<open>world.bodies\<close> (bodies are only ever appended, so the index is stable); a body
  that was created and never added to the world is carried by value.
\<close>

datatype BodyRef = InWorld nat | Detached Body

record PointToPointConstraint =
  bodyA :: BodyRef
  pivotA :: Vec3
  bodyB :: BodyRef
  pivotB :: Vec3

text \<open>
  Of a \<^verbatim>\<open>CANNON.World\<close>: the bodies and constraints in the order they were added, the
  settings that \<^verbatim>\<open>initCannon\<close> assigns, and \<^verbatim>\<open>accumulator\<close>, the time that
  \<^verbatim>\<open>World.step\<close> has been handed and has not simulated yet; \<^verbatim>\<open>main.ts\<close> neither
  reads nor writes the last.
\<close>

record World =
  bodies :: "Body list"
  constraints :: "PointToPointConstraint list"
  gravity :: Vec3
  contactEquationStiffness :: real
  contactEquationRelaxation :: real
  solver_iterations :: nat
  solver_tolerance :: real
  contactmaterials :: "ContactMaterial list"
  accumulator :: real

record Mesh =
  mesh_position :: Vec3
  mesh_quaternion :: Quaternion
  castShadow :: bool
  receiveShadow :: bool

text \<open>The objects that the modelled functions add to the three.js scene.\<close>

datatype SceneObject =
  Sky | AmbientLight | SunLight | SunLightHelper | Floor
  | BoxMesh nat | BallMesh nat | ControlsObject

text \<open>
  The module-level variables of \<^verbatim>\<open>main.ts\<close>. \<^verbatim>\<open>balls\<close>, \<^verbatim>\<open>boxes\<close> and
  \<^verbatim>\<open>sphereBody\<close> hold references to bodies of the world, that is, indices into
  \<^verbatim>\<open>world.bodies\<close>. \<^verbatim>\<open>enabled\<close> is \<^verbatim>\<open>controls.enabled\<close> and
  \<^verbatim>\<open>instructionsDisplay\<close> is \<^verbatim>\<open>instructions.style.display\<close>.
\<close>

record state =
  world :: World
  sphereShape :: Sphere
  sphereBody :: nat
  physicsMaterial :: Material
  balls :: "nat list"
  ballMeshes :: "Mesh list"
  boxes :: "nat list"
  boxMeshes :: "Mesh list"
  scene :: "SceneObject list"
  enabled :: bool
  instructionsDisplay :: string
  lastCallTime :: real

datatype error = TypeError

subsection \<open>Library objects as main.ts uses them\<close>

text \<open>
  \<^verbatim>\<open>new CANNON.Body({ mass, material })\<close>: a body at the origin, at rest, with the
  identity orientation and no shape; 0.01 is the library's default for both dampings.
\<close>

definition Body_new :: "real \<Rightarrow> Material option \<Rightarrow> Body" where
  "Body_new m mat =
     \<lparr>mass = m, material = mat, shapes = [], position = Vec3 0 0 0,
      quaternion = Quaternion 0 0 0 1, velocity = Vec3 0 0 0,
      linearDamping = 0.01, angularDamping = 0.01\<rparr>"

definition addShape :: "Shape \<Rightarrow> Body \<Rightarrow> Body" where
  "addShape sh b = b\<lparr>shapes := shapes b @ [sh]\<rparr>"

text \<open>\<^verbatim>\<open>new THREE.Mesh(geometry, material)\<close>: at the origin, identity orientation, no shadows.\<close>

definition Mesh_new :: Mesh where
  "Mesh_new =
     \<lparr>mesh_position = Vec3 0 0 0, mesh_quaternion = Quaternion 0 0 0 1,
      castShadow = False, receiveShadow = False\<rparr>"

text \<open>
  \<^verbatim>\<open>new CANNON.World()\<close>: no bodies, no constraints, no gravity, nothing accumulated.
  The solver's and the contact material's settings hold 0 until \<^verbatim>\<open>initCannon\<close>
  assigns them, which it does before anything reads them.
\<close>

definition World_new :: World where
  "World_new =
     \<lparr>bodies = [], constraints = [], gravity = Vec3 0 0 0,
      contactEquationStiffness = 0, contactEquationRelaxation = 0,
      solver_iterations = 0, solver_tolerance = 0, contactmaterials = [],
      accumulator = 0\<rparr>"

text \<open>\<^verbatim>\<open>world.addBody(body)\<close> appends; the new body's reference is the old length.\<close>

definition addBody :: "Body \<Rightarrow> World \<Rightarrow> World" where
  "addBody b w = w\<lparr>bodies := bodies w @ [b]\<rparr>"

definition addConstraint :: "PointToPointConstraint \<Rightarrow> World \<Rightarrow> World" where
  "addConstraint c w = w\<lparr>constraints := constraints w @ [c]\<rparr>"

definition addContactMaterial :: "ContactMaterial \<Rightarrow> World \<Rightarrow> World" where
  "addContactMaterial c w = w\<lparr>contactmaterials := contactmaterials w @ [c]\<rparr>"

text \<open>Writing through a reference to a body of the world.\<close>

definition updBody :: "nat \<Rightarrow> (Body \<Rightarrow> Body) \<Rightarrow> World \<Rightarrow> World" where
  "updBody r f w = w\<lparr>bodies := (bodies w)[r := f (bodies w ! r)]\<rparr>"


text \<open>\<^verbatim>\<open>Quaternion.setFromEuler(x, y, z)\<close> in the default order XYZ.\<close>

definition setFromEuler :: "real \<Rightarrow> real \<Rightarrow> real \<Rightarrow> Quaternion" where
  "setFromEuler ex ey ez =
     (let c1 = cos (ex / 2); c2 = cos (ey / 2); c3 = cos (ez / 2);
          s1 = sin (ex / 2); s2 = sin (ey / 2); s3 = sin (ez / 2)
      in Quaternion (s1 * c2 * c3 + c1 * s2 * s3) (c1 * s2 * c3 - s1 * c2 * s3)
                    (c1 * c2 * s3 + s1 * s2 * c3) (c1 * c2 * c3 - s1 * s2 * s3))"

text \<open>
  \<^verbatim>\<open>Vector3.sub\<close>, \<^verbatim>\<open>Vector3.length\<close> and \<^verbatim>\<open>Vector3.normalize\<close> of three.js,
  on exact values; \<^verbatim>\<open>normalize\<close> divides by \<^verbatim>\<open>length() || 1\<close>, so the zero vector stays
  zero. On exact values the normalised vector has length 1; what the library computes in
  doubles is \<open>normalize_double\<close> below, whose result has length 1 up to rounding only.
\<close>

definition vsub :: "Vec3 \<Rightarrow> Vec3 \<Rightarrow> Vec3" where
  "vsub a b = Vec3 (vx a - vx b) (vy a - vy b) (vz a - vz b)"

definition vlength :: "Vec3 \<Rightarrow> real" where
  "vlength a = sqrt (vx a * vx a + vy a * vy a + vz a * vz a)"

definition normalize :: "Vec3 \<Rightarrow> Vec3" where
  "normalize a =
     (let l = (if vlength a = 0 then 1 else vlength a)
      in Vec3 (vx a / l) (vy a / l) (vz a / l))"

section \<open>The click handler (projectile launcher), main.ts lines 292-354\<close>

definition shootVelocity :: real where
  "shootVelocity = 15"

definition ballShape :: Sphere where
  "ballShape = Sphere 0.2"

text \<open>
  \<^verbatim>\<open>getShootDirection\<close>: \<open>unprojected\<close> is the value of
  \<^verbatim>\<open>new THREE.Vector3(0, 0, 1).unproject(camera)\<close>, the world-space point behind the
  centre of the screen on the camera's far plane.
\<close>

definition getShootDirection :: "Vec3 \<Rightarrow> state \<Rightarrow> Vec3" where
  "getShootDirection unprojected s =
     normalize (vsub unprojected (position (bodies (world s) ! sphereBody s)))"

text \<open>The click event carries the mouse position; the listener takes no argument.\<close>

record MouseEvent =
  clientX :: real
  clientY :: real

definition click :: "MouseEvent \<Rightarrow> Vec3 \<Rightarrow> state \<Rightarrow> state" where
  "click ev unprojected s =
     (if \<not> enabled s then s
      else
        let ballBody = addShape (SphereShape ballShape) (Body_new 1 None);
            ballMesh = Mesh_new\<lparr>castShadow := True, receiveShadow := True\<rparr>;
            ballRef = length (bodies (world s));
            meshRef = length (ballMeshes s);
            s1 = s\<lparr>world := addBody ballBody (world s)\<rparr>;
            s2 = s1\<lparr>scene := scene s1 @ [BallMesh meshRef]\<rparr>;
            s3 = s2\<lparr>balls := balls s2 @ [ballRef]\<rparr>;
            s4 = s3\<lparr>ballMeshes := ballMeshes s3 @ [ballMesh]\<rparr>;
            shootDirection = getShootDirection unprojected s4;
            s5 = s4\<lparr>world := updBody ballRef
                   (\<lambda>b. b\<lparr>velocity := Vec3 (vx shootDirection * shootVelocity)
                                           (vy shootDirection * shootVelocity)
                                           (vz shootDirection * shootVelocity)\<rparr>)
                   (world s4)\<rparr>;
            avatar = position (bodies (world s5) ! sphereBody s5);
            px = vx avatar + vx shootDirection * (radius (sphereShape s5) * 1.02 + radius ballShape);
            py = vy avatar + vy shootDirection * (radius (sphereShape s5) * 1.02 + radius ballShape);
            pz = vz avatar + vz shootDirection * (radius (sphereShape s5) * 1.02 + radius ballShape);
            s6 = s5\<lparr>world := updBody ballRef (\<lambda>b. b\<lparr>position := Vec3 px py pz\<rparr>) (world s5)\<rparr>
        in s6\<lparr>ballMeshes := (ballMeshes s6)[meshRef :=
                 (ballMeshes s6 ! meshRef)\<lparr>mesh_position := position (bodies (world s6) ! ballRef)\<rparr>]\<rparr>)"

section \<open>The frame callback, main.ts lines 378-403\<close>

definition timeStep :: real where
  "timeStep = 1 / 60"

definition copyPose :: "Body \<Rightarrow> Mesh \<Rightarrow> Mesh" where
  "copyPose b m = m\<lparr>mesh_position := position b, mesh_quaternion := quaternion b\<rparr>"

text \<open>
  One of the two copy loops of \<^verbatim>\<open>animate\<close>, from index \<open>i\<close> on: \<open>refs\<close> is
  \<^verbatim>\<open>balls\<close> or \<^verbatim>\<open>boxes\<close>, \<open>ms\<close> the matching mesh array. Reading
  \<^verbatim>\<open>ms[i].position\<close> beyond the end of \<open>ms\<close> is a property access on
  \<^verbatim>\<open>undefined\<close>, which throws a TypeError.
\<close>

function syncLoop :: "World \<Rightarrow> nat list \<Rightarrow> nat \<Rightarrow> Mesh list \<Rightarrow> error + Mesh list" where
  "syncLoop w refs i ms =
     (if i < length refs then
        (if i < length ms
         then syncLoop w refs (Suc i) (ms[i := copyPose (bodies w ! (refs ! i)) (ms ! i)])
         else Inl TypeError)
      else Inr ms)"
  by pat_completeness auto
termination
  by (relation "measure (\<lambda>(w, refs, i, ms). length refs - i)") auto

declare syncLoop.simps [simp del]

text \<open>
  The body of \<^verbatim>\<open>if (controls.enabled) { ... }\<close>: the library's
  \<^verbatim>\<open>world.step(timeStep, dt)\<close>, given as the parameter \<open>wstep\<close>, then the two copy loops.
\<close>

definition physicsFrame ::
  "(real \<Rightarrow> real \<Rightarrow> World \<Rightarrow> World) \<Rightarrow> real \<Rightarrow> state \<Rightarrow> error + state" where
  "physicsFrame wstep dt s =
     (let s1 = s\<lparr>world := wstep timeStep dt (world s)\<rparr> in
      case syncLoop (world s1) (balls s1) 0 (ballMeshes s1) of
        Inl e \<Rightarrow> Inl e
      | Inr bm \<Rightarrow>
          (let s2 = s1\<lparr>ballMeshes := bm\<rparr> in
           case syncLoop (world s2) (boxes s2) 0 (boxMeshes s2) of
             Inl e \<Rightarrow> Inl e
           | Inr xm \<Rightarrow> Inr (s2\<lparr>boxMeshes := xm\<rparr>)))"

text \<open>
  Modelled from the spec: \<^verbatim>\<open>PointerLockControlsCannon.update\<close> of
  \<^verbatim>\<open>./pointer-lock\<close>, a file of the repository that is not among the sources. Spec
  section 4.3: called once per frame regardless of state; if Locked, it writes the desired
  horizontal velocity into the avatar body's horizontal velocity components, leaving the
  vertical component untouched; if Unlocked, it is a no-op. The desired horizontal
  velocity (computed from key state, yaw and a speed constant that the spec does not
  give) is the parameter \<open>desired\<close>; the eye transform it writes for the camera is
  outside the state modelled here.
\<close>

definition controls_update :: "real \<times> real \<Rightarrow> real \<Rightarrow> state \<Rightarrow> state" where
  "controls_update desired dt s =
     (if enabled s
      then s\<lparr>world := updBody (sphereBody s)
               (\<lambda>b. b\<lparr>velocity := Vec3 (fst desired) (vy (velocity b)) (snd desired)\<rparr>)
               (world s)\<rparr>
      else s)"

text \<open>
  \<^verbatim>\<open>animate\<close>: \<open>now\<close> is the value of \<^verbatim>\<open>performance.now()\<close> in this frame.
  Rendering and the request for the next frame do not change the state modelled here.
\<close>

definition animate ::
  "(real \<Rightarrow> real \<Rightarrow> World \<Rightarrow> World) \<Rightarrow> real \<Rightarrow> real \<times> real \<Rightarrow> state \<Rightarrow> error + state" where
  "animate wstep now desired s =
     (let time = now / 1000;
          dt = time - lastCallTime s;
          s1 = s\<lparr>lastCallTime := time\<rparr>
      in if enabled s1
         then (case physicsFrame wstep dt s1 of
                 Inl e \<Rightarrow> Inl e
               | Inr s2 \<Rightarrow> Inr (controls_update desired dt s2))
         else Inr (controls_update desired dt s1))"

section \<open>Pointer lock, main.ts lines 357-376\<close>

text \<open>
  Modelled from the spec: the value of \<^verbatim>\<open>enabled\<close> in a new
  \<^verbatim>\<open>PointerLockControlsCannon\<close>, whose file \<^verbatim>\<open>./pointer-lock\<close> is not among the
  sources. Spec section 4.3: the controller starts Unlocked, and \<^verbatim>\<open>enabled\<close> is true
  only while the pointer is captured.
\<close>

definition PointerLockControlsCannon_enabled :: bool where
  "PointerLockControlsCannon_enabled = False"

text \<open>
  \<^verbatim>\<open>initPointerLock\<close> creates the controls and adds their object to the scene; the
  two listeners that it registers for the lock and unlock events follow.
\<close>

definition initPointerLock :: "state \<Rightarrow> state" where
  "initPointerLock s =
     s\<lparr>enabled := PointerLockControlsCannon_enabled, scene := scene s @ [ControlsObject]\<rparr>"

definition onLock :: "state \<Rightarrow> state" where
  "onLock s = s\<lparr>enabled := True, instructionsDisplay := ''none''\<rparr>"

definition onUnlock :: "state \<Rightarrow> state" where
  "onUnlock s = s\<lparr>enabled := False, instructionsDisplay := ''flex''\<rparr>"

section \<open>Events\<close>

text \<open>
  What the host delivers after start-up: a frame (with the clock's value and the
  horizontal velocity the controller wants in it), a click on the window (with the
  mouse event and the camera's unprojected screen centre), and the two pointer-lock
  events. A run stops at the first exception.
\<close>

datatype event =
  Frame real "real \<times> real"
  | Click MouseEvent Vec3
  | Lock
  | Unlock

fun handle :: "(real \<Rightarrow> real \<Rightarrow> World \<Rightarrow> World) \<Rightarrow> event \<Rightarrow> state \<Rightarrow> error + state" where
  "handle wstep (Frame now desired) s = animate wstep now desired s"
| "handle wstep (Click ev unprojected) s = Inr (click ev unprojected s)"
| "handle wstep Lock s = Inr (onLock s)"
| "handle wstep Unlock s = Inr (onUnlock s)"

fun run :: "(real \<Rightarrow> real \<Rightarrow> World \<Rightarrow> World) \<Rightarrow> event list \<Rightarrow> state \<Rightarrow> error + state" where
  "run wstep [] s = Inr s"
| "run wstep (e # es) s =
     (case handle wstep e s of Inl err \<Rightarrow> Inl err | Inr s' \<Rightarrow> run wstep es s')"

section \<open>Start-up, main.ts lines 8-30 and 146-290\<close>

text \<open>
  The module-level variables once their declarations have run: \<open>now0\<close> is the value
  of \<^verbatim>\<open>performance.now()\<close> in the initialiser of \<^verbatim>\<open>lastCallTime\<close>. The variables
  declared without a value (\<^verbatim>\<open>world\<close>, \<^verbatim>\<open>sphereShape\<close>, \<^verbatim>\<open>sphereBody\<close>,
  \<^verbatim>\<open>physicsMaterial\<close>, \<^verbatim>\<open>controls\<close>) are written here with a placeholder; the init
  functions assign every one of them before the script ends, that is, before a listener
  or a frame can run, and nothing below reads a placeholder.
\<close>

definition loaded :: "real \<Rightarrow> state" where
  "loaded now0 =
     \<lparr>world = World_new, sphereShape = Sphere 0, sphereBody = 0, physicsMaterial = [],
      balls = [], ballMeshes = [], boxes = [], boxMeshes = [], scene = [],
      enabled = False, instructionsDisplay = [], lastCallTime = now0\<rparr>"

text \<open>Of \<^verbatim>\<open>initThree\<close>, which is outside the physics and control loop, only the new scene
  and the objects added to it are kept.\<close>

definition initThree :: "state \<Rightarrow> state" where
  "initThree s = s\<lparr>scene := [Sky, AmbientLight, SunLight, SunLightHelper, Floor]\<rparr>"

definition halfExtents :: Vec3 where
  "halfExtents = Vec3 1 1 1"

definition boxShape :: Shape where
  "boxShape = Box halfExtents"

text \<open>
  One iteration of the loop over the 100 free boxes. \<open>rnd k\<close> is the value returned by
  the \<open>k\<close>-th call of \<^verbatim>\<open>Math.random()\<close>; every iteration makes five calls.
\<close>

definition addBox :: "(nat \<Rightarrow> real) \<Rightarrow> nat \<Rightarrow> state \<Rightarrow> state" where
  "addBox rnd i s =
     (let boxBody = addShape boxShape (Body_new 5 None);
          boxMesh = Mesh_new\<lparr>castShadow := True, receiveShadow := True\<rparr>;
          clusterX = (rnd (5 * i) - 0.5) * 100;
          clusterZ = (rnd (5 * i + 1) - 0.5) * 100;
          x = clusterX + (rnd (5 * i + 2) - 0.5) * 2;
          y = rnd (5 * i + 3) * 10 + 1;
          z = clusterZ + (rnd (5 * i + 4) - 0.5) * 2;
          boxBody1 = boxBody\<lparr>position := Vec3 x y z\<rparr>;
          boxMesh1 = boxMesh\<lparr>mesh_position := position boxBody1\<rparr>;
          bodyRef = length (bodies (world s));
          meshRef = length (boxMeshes s)
      in s\<lparr>world := addBody boxBody1 (world s),
            scene := scene s @ [BoxMesh meshRef],
            boxes := boxes s @ [bodyRef],
            boxMeshes := boxMeshes s @ [boxMesh1]\<rparr>)"

text \<open>The constants of the linked boxes: \<^verbatim>\<open>size\<close>, \<^verbatim>\<open>mass\<close>, \<^verbatim>\<open>space\<close>, \<^verbatim>\<open>N\<close>.\<close>

definition size' :: real where
  "size' = 0.5"

definition mass' :: real where
  "mass' = 0.3"

definition space :: real where
  "space = 0.1 * size'"

definition N :: nat where
  "N = 10"

definition halfExtents2 :: Vec3 where
  "halfExtents2 = Vec3 size' size' (size' * 0.1)"

definition boxShape2 :: Shape where
  "boxShape2 = Box halfExtents2"

text \<open>
  One iteration of the loop over the linked boxes; the second component is the variable
  \<^verbatim>\<open>last\<close>, which starts as a body that is never added to the world.
\<close>

definition addLink :: "nat \<Rightarrow> state \<times> BodyRef \<Rightarrow> state \<times> BodyRef" where
  "addLink i sl =
     (let s = fst sl;
          last' = snd sl;
          boxBody = addShape boxShape2 (Body_new (if i = 0 then 0 else mass') None);
          boxMesh = Mesh_new\<lparr>castShadow := True\<rparr>;
          boxBody1 = boxBody\<lparr>position :=
             Vec3 5 ((real N - real i) * (size' * 2 + 2 * space) + size' * 2 + space) 0\<rparr>;
          boxBody2 = boxBody1\<lparr>linearDamping := 0.01, angularDamping := 0.01\<rparr>;
          boxMesh1 = boxMesh\<lparr>castShadow := True, receiveShadow := True\<rparr>;
          bodyRef = length (bodies (world s));
          meshRef = length (boxMeshes s);
          s1 = s\<lparr>world := addBody boxBody2 (world s),
                 scene := scene s @ [BoxMesh meshRef],
                 boxes := boxes s @ [bodyRef],
                 boxMeshes := boxMeshes s @ [boxMesh1]\<rparr>;
          constraint1 = \<lparr>bodyA = InWorld bodyRef, pivotA = Vec3 (- size') (size' + space) 0,
                         bodyB = last', pivotB = Vec3 (- size') (- size' - space) 0\<rparr>;
          constraint2 = \<lparr>bodyA = InWorld bodyRef, pivotA = Vec3 size' (size' + space) 0,
                         bodyB = last', pivotB = Vec3 size' (- size' - space) 0\<rparr>;
          s2 = (if i > 0
                then s1\<lparr>world := addConstraint constraint2 (addConstraint constraint1 (world s1))\<rparr>
                else s1)
      in (s2, InWorld bodyRef))"

definition initCannon :: "(nat \<Rightarrow> real) \<Rightarrow> state \<Rightarrow> state" where
  "initCannon rnd s =
     (let w0 = World_new\<lparr>contactEquationStiffness := 1000000000,
                          contactEquationRelaxation := 4\<rparr>;
          w1 = w0\<lparr>solver_iterations := 7, solver_tolerance := 0.1\<rparr>;
          w2 = w1\<lparr>gravity := Vec3 0 (- 20) 0\<rparr>;
          pm = ''physics'';
          w3 = addContactMaterial \<lparr>materials = (pm, pm), friction = 0, restitution = 0.3\<rparr> w2;
          radius' = 1.3;
          shape = Sphere radius';
          avatar = (addShape (SphereShape shape) (Body_new 5 (Some pm)))
                     \<lparr>position := Vec3 0 5 0, linearDamping := 0.9\<rparr>;
          avatarRef = length (bodies w3);
          w4 = addBody avatar w3;
          groundBody = (addShape Plane (Body_new 0 (Some pm)))
                         \<lparr>quaternion := setFromEuler (- pi / 2) 0 0\<rparr>;
          w5 = addBody groundBody w4;
          s1 = s\<lparr>world := w5, sphereShape := shape, sphereBody := avatarRef,
                 physicsMaterial := pm\<rparr>;
          s2 = fold (addBox rnd) [0..<100] s1
      in fst (fold addLink [0..<N] (s2, Detached (Body_new 0 None))))"

text \<open>The state when the script has run \<^verbatim>\<open>initThree\<close>, \<^verbatim>\<open>initCannon\<close> and
  \<^verbatim>\<open>initPointerLock\<close>, before the first frame.\<close>

definition startup :: "(nat \<Rightarrow> real) \<Rightarrow> real \<Rightarrow> state" where
  "startup rnd now0 = initPointerLock (initCannon rnd (initThree (loaded now0)))"

section \<open>Notions used to state the properties\<close>



text \<open>Mesh \<open>i\<close> of \<open>ms\<close> has the position and orientation of the body that reference
  \<open>i\<close> of \<open>refs\<close> names, for every index, and the two arrays have the same length.\<close>

definition mirrors :: "World \<Rightarrow> nat list \<Rightarrow> Mesh list \<Rightarrow> bool" where
  "mirrors w refs ms =
     list_all2 (\<lambda>r m. mesh_position m = position (bodies w ! r) \<and>
                       mesh_quaternion m = quaternion (bodies w ! r)) refs ms"

section \<open>The fixed-step accumulator of the specification\<close>

text \<open>
  Modelled from the spec: \<^verbatim>\<open>PhysicsWorld.step(fixedDt, elapsedReal)\<close> of spec section
  4.1, which is \<^verbatim>\<open>World.step\<close> of the cannon-es library; its code is not among the
  sources. The spec: accumulate \<^verbatim>\<open>elapsedReal\<close>, then repeatedly integrate by
  \<^verbatim>\<open>fixedDt\<close> while the accumulated time is at least \<^verbatim>\<open>fixedDt\<close>, decrementing
  the accumulator each iteration, leaving the remainder for the next call. The state is
  the pair of the accumulator and the simulation state; one substep of the simulation
  is the parameter \<open>integrate\<close>. The loop does not end when \<open>fixedDt \<le> 0\<close> and the
  accumulator is not below it: then the result is \<open>None\<close>.
\<close>

partial_function (option) substeps ::
  "(real \<Rightarrow> 'w \<Rightarrow> 'w) \<Rightarrow> real \<Rightarrow> real \<times> 'w \<Rightarrow> (real \<times> 'w) option" where
  "substeps integrate fixedDt p =
     (if fixedDt \<le> fst p
      then substeps integrate fixedDt (fst p - fixedDt, integrate fixedDt (snd p))
      else Some p)"

definition PhysicsWorld_step ::
  "(real \<Rightarrow> 'w \<Rightarrow> 'w) \<Rightarrow> real \<Rightarrow> real \<Rightarrow> real \<times> 'w \<Rightarrow> (real \<times> 'w) option" where
  "PhysicsWorld_step integrate fixedDt elapsedReal p =
     substeps integrate fixedDt (fst p + elapsedReal, snd p)"

section \<open>The arithmetic of the program in IEEE doubles\<close>

text \<open>
  A JavaScript number is a binary64 value and every operation rounds its exact result to
  the nearest such value, ties to the even significand. \<open>fl\<close> is that rounding on the
  reals, for results up to the largest double: \<open>exponent a\<close> is the binary exponent of
  a positive \<open>a\<close>, not below \<open>-1022\<close> (the subnormal range shares that exponent), and
  the unit in the last place is \<open>2\<close> to the power \<open>exponent - 52\<close>. Infinities and NaN are
  not values of this model.
\<close>

definition pow2 :: "int \<Rightarrow> real" where
  "pow2 e = (if 0 \<le> e then 2 ^ nat e else 1 / 2 ^ nat (- e))"

fun expo_up :: "nat \<Rightarrow> real \<Rightarrow> int" where
  "expo_up 0 a = 0"
| "expo_up (Suc n) a = (if 2 \<le> a then 1 + expo_up n (a / 2) else 0)"

fun expo_down :: "nat \<Rightarrow> real \<Rightarrow> int" where
  "expo_down 0 a = 0"
| "expo_down (Suc n) a = (if a < 1 then expo_down n (a * 2) - 1 else 0)"

definition exponent :: "real \<Rightarrow> int" where
  "exponent a = (if 1 \<le> a then expo_up 1024 a else expo_down 1022 a)"

definition roundTiesToEven :: "real \<Rightarrow> int" where
  "roundTiesToEven q =
     (let f = \<lfloor>q\<rfloor> in
      if q - of_int f < 1 / 2 then f
      else if 1 / 2 < q - of_int f then f + 1
      else if even f then f else f + 1)"

definition fl :: "real \<Rightarrow> real" where
  "fl x =
     (if x = 0 then 0
      else let u = pow2 (exponent \<bar>x\<bar> - 52) in of_int (roundTiesToEven (x / u)) * u)"






subsection \<open>The linked boxes in doubles, main.ts lines 233-235 and 255-284\<close>









subsection \<open>The ball's velocity in doubles, main.ts lines 298-306 and 334-340\<close>





section \<open>While the controller is disabled\<close>

lemma click_disabled: "\<not> enabled s \<Longrightarrow> click ev unprojected s = s"
  by (simp add: click_def)

lemma startup_disabled: "\<not> enabled (startup rnd now0)"
  by (simp add: startup_def initPointerLock_def PointerLockControlsCannon_enabled_def)

lemma animate_disabled:
  "\<not> enabled s \<Longrightarrow> animate wstep now desired s = Inr (s\<lparr>lastCallTime := now / 1000\<rparr>)"
  by (simp add: animate_def controls_update_def Let_def)

text \<open>A handler other than the lock listener, run while the controller is disabled,
  changes nothing but the timestamp and the overlay's display.\<close>

lemma handle_disabled:
  assumes "\<not> enabled s" and "e \<noteq> Lock"
  shows "\<exists>t d. handle wstep e s = Inr (s\<lparr>lastCallTime := t, instructionsDisplay := d\<rparr>)"
proof (cases e)
  case (Frame now desired)
  have "s\<lparr>lastCallTime := now / 1000\<rparr> =
        s\<lparr>lastCallTime := now / 1000, instructionsDisplay := instructionsDisplay s\<rparr>"
    by simp
  with Frame assms show ?thesis
    by (metis animate_disabled handle.simps(1))
next
  case (Click ev u)
  have "s = s\<lparr>lastCallTime := lastCallTime s, instructionsDisplay := instructionsDisplay s\<rparr>"
    by simp
  with Click assms show ?thesis
    by (metis click_disabled handle.simps(2))
next
  case Lock
  with assms show ?thesis by simp
next
  case Unlock
  have "onUnlock s = s\<lparr>lastCallTime := lastCallTime s, instructionsDisplay := ''flex''\<rparr>"
    using assms by (simp add: onUnlock_def)
  with Unlock show ?thesis
    by (metis handle.simps(4))
qed

lemma run_disabled:
  assumes "\<not> enabled s" and "Lock \<notin> set es"
  shows "\<exists>t d. run wstep es s = Inr (s\<lparr>lastCallTime := t, instructionsDisplay := d\<rparr>)"
  using assms
proof (induction es arbitrary: s)
  case Nil
  have "s = s\<lparr>lastCallTime := lastCallTime s, instructionsDisplay := instructionsDisplay s\<rparr>"
    by simp
  then show ?case by (metis run.simps(1))
next
  case (Cons e es)
  from Cons.prems have ne: "e \<noteq> Lock" and rest: "Lock \<notin> set es" by auto
  from handle_disabled [OF Cons.prems(1) ne]
  obtain t d where h: "handle wstep e s = Inr (s\<lparr>lastCallTime := t, instructionsDisplay := d\<rparr>)"
    by blast
  let ?s1 = "s\<lparr>lastCallTime := t, instructionsDisplay := d\<rparr>"
  have dis: "\<not> enabled ?s1" using Cons.prems(1) by simp
  from Cons.IH [OF dis rest]
  obtain t' d' where r: "run wstep es ?s1 = Inr (?s1\<lparr>lastCallTime := t', instructionsDisplay := d'\<rparr>)"
    by blast
  have "run wstep (e # es) s = Inr (s\<lparr>lastCallTime := t', instructionsDisplay := d'\<rparr>)"
    using h r by simp
  then show ?case by blast
qed

lemma handle_disabled_indep:
  "\<not> enabled s \<Longrightarrow> handle wstep e s = handle wstep' e s"
  by (cases e) (simp_all add: animate_disabled)

lemma run_disabled_indep:
  assumes "\<not> enabled s" and "Lock \<notin> set es"
  shows "run wstep es s = run wstep' es s"
  using assms
proof (induction es arbitrary: s)
  case Nil
  show ?case by simp
next
  case (Cons e es)
  from Cons.prems have ne: "e \<noteq> Lock" and rest: "Lock \<notin> set es" by auto
  from handle_disabled [OF Cons.prems(1) ne]
  obtain t d where h: "handle wstep e s = Inr (s\<lparr>lastCallTime := t, instructionsDisplay := d\<rparr>)"
    by blast
  have h': "handle wstep' e s = Inr (s\<lparr>lastCallTime := t, instructionsDisplay := d\<rparr>)"
    using h handle_disabled_indep [OF Cons.prems(1), of wstep e wstep'] by simp
  have dis: "\<not> enabled (s\<lparr>lastCallTime := t, instructionsDisplay := d\<rparr>)"
    using Cons.prems(1) by simp
  show ?case using h h' Cons.IH [OF dis rest] by simp
qed

text \<open>
  C1. While \<^verbatim>\<open>controls.enabled\<close> is false, whatever frames, clicks and unlock events
  arrive (any events but the lock event, which enables the controller), the run raises
  nothing and ends in a state that differs from the first one in the timestamp and the
  overlay's display only: the world, hence every body's position, orientation and
  velocity, is the same, and so is every mesh. The library's step is not called: the
  result is the same for any two step functions.
\<close>

theorem frozen_while_disabled:
  assumes "\<not> enabled s" and "Lock \<notin> set es"
  shows "\<exists>s'. run wstep es s = Inr s' \<and> world s' = world s \<and>
           ballMeshes s' = ballMeshes s \<and> boxMeshes s' = boxMeshes s \<and>
           s' = s\<lparr>lastCallTime := lastCallTime s', instructionsDisplay := instructionsDisplay s'\<rparr> \<and>
           run wstep' es s = Inr s'"
proof -
  from run_disabled [OF assms]
  obtain t d where r: "run wstep es s = Inr (s\<lparr>lastCallTime := t, instructionsDisplay := d\<rparr>)"
    by blast
  have "run wstep' es s = Inr (s\<lparr>lastCallTime := t, instructionsDisplay := d\<rparr>)"
    using r run_disabled_indep [OF assms, of wstep wstep'] by simp
  with r show ?thesis by simp
qed

theorem frozen_while_disabled_witness:
  "\<not> enabled (startup (\<lambda>k. 0) 0) \<and>
   Lock \<notin> set [Frame 16 (0, 0), Click \<lparr>clientX = 3, clientY = 4\<rparr> (Vec3 0 5 1000),
                 Frame 33 (1, 0), Unlock, Frame 50 (0, 0)] \<and>
   (\<exists>s'. run (\<lambda>fixedDt dt w. World_new)
            [Frame 16 (0, 0), Click \<lparr>clientX = 3, clientY = 4\<rparr> (Vec3 0 5 1000),
             Frame 33 (1, 0), Unlock, Frame 50 (0, 0)] (startup (\<lambda>k. 0) 0) = Inr s' \<and>
      world s' = world (startup (\<lambda>k. 0) 0) \<and>
      ballMeshes s' = ballMeshes (startup (\<lambda>k. 0) 0) \<and>
      boxMeshes s' = boxMeshes (startup (\<lambda>k. 0) 0) \<and>
      s' = (startup (\<lambda>k. 0) 0)
             \<lparr>lastCallTime := lastCallTime s', instructionsDisplay := instructionsDisplay s'\<rparr> \<and>
      run (\<lambda>fixedDt dt w. w)
            [Frame 16 (0, 0), Click \<lparr>clientX = 3, clientY = 4\<rparr> (Vec3 0 5 1000),
             Frame 33 (1, 0), Unlock, Frame 50 (0, 0)] (startup (\<lambda>k. 0) 0) = Inr s')"
proof -
  have a: "\<not> enabled (startup (\<lambda>k. 0) 0)"
    by (simp add: startup_def initPointerLock_def PointerLockControlsCannon_enabled_def)
  have b: "Lock \<notin> set [Frame 16 (0, 0), Click \<lparr>clientX = 3, clientY = 4\<rparr> (Vec3 0 5 1000),
                         Frame 33 (1, 0), Unlock, Frame 50 (0, 0)]"
    by simp
  show ?thesis
    using a b frozen_while_disabled [OF a b, of "\<lambda>fixedDt dt w. World_new" "\<lambda>fixedDt dt w. w"]
    by blast
qed

text \<open>
  C5. A click that arrives while \<^verbatim>\<open>controls.enabled\<close> is false returns at once: the
  state after the listener is the state before it (no body is added to the world,
  \<^verbatim>\<open>balls\<close> and \<^verbatim>\<open>ballMeshes\<close> are as they were, nothing else is written), and the
  listener raises nothing.
\<close>

theorem click_while_disabled_is_noop:
  "\<not> enabled s \<Longrightarrow>
     click ev unprojected s = s \<and> handle wstep (Click ev unprojected) s = Inr s"
  by (simp add: click_def)

theorem click_while_disabled_is_noop_witness:
  "\<not> enabled (startup (\<lambda>k. 0) 0) \<and>
   click \<lparr>clientX = 3, clientY = 4\<rparr> (Vec3 0 5 1000) (startup (\<lambda>k. 0) 0) = startup (\<lambda>k. 0) 0 \<and>
   handle (\<lambda>fixedDt dt w. w) (Click \<lparr>clientX = 3, clientY = 4\<rparr> (Vec3 0 5 1000))
     (startup (\<lambda>k. 0) 0) = Inr (startup (\<lambda>k. 0) 0)"
proof -
  have a: "\<not> enabled (startup (\<lambda>k. 0) 0)"
    by (simp add: startup_def initPointerLock_def PointerLockControlsCannon_enabled_def)
  show ?thesis
    using a click_while_disabled_is_noop [OF a] by blast
qed

section \<open>The state after start-up\<close>

lemma upt10: "[0..<10] = [0,1,2,3,4,5,6,7,8,9]"
  by (simp add: upt_rec)

lemma fold_addBox:
  "\<exists>bs ms. length bs = n \<and> length ms = n \<and>
     (\<forall>s. fold (addBox rnd) [0..<n] s =
       s\<lparr>world := (world s)\<lparr>bodies := bodies (world s) @ bs\<rparr>,
         scene := scene s @ map (\<lambda>k. BoxMesh (length (boxMeshes s) + k)) [0..<n],
         boxes := boxes s @ map (\<lambda>k. length (bodies (world s)) + k) [0..<n],
         boxMeshes := boxMeshes s @ ms\<rparr>)"
proof (induction n)
  case 0
  show ?case by simp
next
  case (Suc n)
  then obtain bs ms where l: "length bs = n" "length ms = n"
    and f: "\<And>s. fold (addBox rnd) [0..<n] s =
       s\<lparr>world := (world s)\<lparr>bodies := bodies (world s) @ bs\<rparr>,
         scene := scene s @ map (\<lambda>k. BoxMesh (length (boxMeshes s) + k)) [0..<n],
         boxes := boxes s @ map (\<lambda>k. length (bodies (world s)) + k) [0..<n],
         boxMeshes := boxMeshes s @ ms\<rparr>"
    by blast
  obtain b m where step: "\<And>t. addBox rnd n t =
      t\<lparr>world := (world t)\<lparr>bodies := bodies (world t) @ [b]\<rparr>,
        scene := scene t @ [BoxMesh (length (boxMeshes t))],
        boxes := boxes t @ [length (bodies (world t))],
        boxMeshes := boxMeshes t @ [m]\<rparr>"
    by (simp add: addBox_def Let_def addBody_def)
  have "\<forall>s. fold (addBox rnd) [0..<Suc n] s =
     s\<lparr>world := (world s)\<lparr>bodies := bodies (world s) @ (bs @ [b])\<rparr>,
         scene := scene s @ map (\<lambda>k. BoxMesh (length (boxMeshes s) + k)) [0..<Suc n],
         boxes := boxes s @ map (\<lambda>k. length (bodies (world s)) + k) [0..<Suc n],
         boxMeshes := boxMeshes s @ (ms @ [m])\<rparr>"
    by (simp add: f step l)
  moreover have "length (bs @ [b]) = Suc n" "length (ms @ [m]) = Suc n"
    using l by simp_all
  ultimately show ?case by blast
qed

lemma upt1_10: "[Suc 0..<10] = [1,2,3,4,5,6,7,8,9]"
  by (simp add: upt_rec)

lemma fold_addLink:
  "fst (fold addLink [0..<N] (s, l)) =
     s\<lparr>world := (world s)
          \<lparr>bodies := bodies (world s) @
             map (\<lambda>i. \<lparr>mass = (if i = 0 then 0 else mass'), material = None,
                       shapes = [boxShape2],
                       position = Vec3 5 ((real N - real i) * (size' * 2 + 2 * space) + size' * 2 + space) 0,
                       quaternion = Quaternion 0 0 0 1, velocity = Vec3 0 0 0,
                       linearDamping = 0.01, angularDamping = 0.01\<rparr>) [0..<N],
           constraints := constraints (world s) @
             concat (map (\<lambda>i.
               [\<lparr>bodyA = InWorld (length (bodies (world s)) + i), pivotA = Vec3 (- size') (size' + space) 0,
                 bodyB = InWorld (length (bodies (world s)) + i - 1), pivotB = Vec3 (- size') (- size' - space) 0\<rparr>,
                \<lparr>bodyA = InWorld (length (bodies (world s)) + i), pivotA = Vec3 size' (size' + space) 0,
                 bodyB = InWorld (length (bodies (world s)) + i - 1), pivotB = Vec3 size' (- size' - space) 0\<rparr>])
               [1..<N])\<rparr>,
       scene := scene s @ map (\<lambda>k. BoxMesh (length (boxMeshes s) + k)) [0..<N],
       boxes := boxes s @ map (\<lambda>k. length (bodies (world s)) + k) [0..<N],
       boxMeshes := boxMeshes s @
         replicate N \<lparr>mesh_position = Vec3 0 0 0, mesh_quaternion = Quaternion 0 0 0 1,
                      castShadow = True, receiveShadow = True\<rparr>\<rparr>"
  by (simp add: N_def upt10 upt1_10 addLink_def Let_def addBody_def addConstraint_def addShape_def
        Body_new_def Mesh_new_def eval_nat_numeral)

text \<open>
  The state that start-up leaves, written out. The 100 free boxes and their meshes depend
  on the random numbers; only their number matters below.
\<close>

lemma startup_explicit:
  "\<exists>bs ms. length bs = 100 \<and> length ms = 100 \<and>
     startup rnd now0 =
       \<lparr>world =
           \<lparr>bodies =
              [\<lparr>mass = 5, material = Some ''physics'', shapes = [SphereShape (Sphere 1.3)],
                position = Vec3 0 5 0, quaternion = Quaternion 0 0 0 1, velocity = Vec3 0 0 0,
                linearDamping = 0.9, angularDamping = 0.01\<rparr>,
               \<lparr>mass = 0, material = Some ''physics'', shapes = [Plane],
                position = Vec3 0 0 0, quaternion = setFromEuler (- pi / 2) 0 0,
                velocity = Vec3 0 0 0, linearDamping = 0.01, angularDamping = 0.01\<rparr>] @ bs @
              map (\<lambda>i. \<lparr>mass = (if i = 0 then 0 else mass'), material = None,
                       shapes = [boxShape2],
                       position = Vec3 5 ((real N - real i) * (size' * 2 + 2 * space) + size' * 2 + space) 0,
                       quaternion = Quaternion 0 0 0 1, velocity = Vec3 0 0 0,
                       linearDamping = 0.01, angularDamping = 0.01\<rparr>) [0..<N],
            constraints =
              concat (map (\<lambda>i.
               [\<lparr>bodyA = InWorld (102 + i), pivotA = Vec3 (- size') (size' + space) 0,
                 bodyB = InWorld (102 + i - 1), pivotB = Vec3 (- size') (- size' - space) 0\<rparr>,
                \<lparr>bodyA = InWorld (102 + i), pivotA = Vec3 size' (size' + space) 0,
                 bodyB = InWorld (102 + i - 1), pivotB = Vec3 size' (- size' - space) 0\<rparr>])
               [1..<N]),
            gravity = Vec3 0 (- 20) 0,
            contactEquationStiffness = 1000000000, contactEquationRelaxation = 4,
            solver_iterations = 7, solver_tolerance = 0.1,
            contactmaterials = [\<lparr>materials = (''physics'', ''physics''), friction = 0, restitution = 0.3\<rparr>],
            accumulator = 0\<rparr>,
         sphereShape = Sphere 1.3, sphereBody = 0, physicsMaterial = ''physics'',
         balls = [], ballMeshes = [],
         boxes = map (\<lambda>k. 2 + k) [0..<100] @ map (\<lambda>k. 102 + k) [0..<N],
         boxMeshes = ms @
           replicate N \<lparr>mesh_position = Vec3 0 0 0, mesh_quaternion = Quaternion 0 0 0 1,
                      castShadow = True, receiveShadow = True\<rparr>,
         scene = [Sky, AmbientLight, SunLight, SunLightHelper, Floor] @
                    map BoxMesh [0..<100] @ map (\<lambda>k. BoxMesh (100 + k)) [0..<N] @ [ControlsObject],
         enabled = False, instructionsDisplay = [], lastCallTime = now0\<rparr>"
proof -
  from fold_addBox [of 100 rnd]
  obtain bs ms where l: "length bs = 100" "length ms = 100"
    and f: "\<And>s. fold (addBox rnd) [0..<100] s =
       s\<lparr>world := (world s)\<lparr>bodies := bodies (world s) @ bs\<rparr>,
         scene := scene s @ map (\<lambda>k. BoxMesh (length (boxMeshes s) + k)) [0..<100],
         boxes := boxes s @ map (\<lambda>k. length (bodies (world s)) + k) [0..<100],
         boxMeshes := boxMeshes s @ ms\<rparr>"
    by blast
  show ?thesis
    apply (rule exI [of _ bs], rule exI [of _ ms])
    apply (simp add: l startup_def initPointerLock_def PointerLockControlsCannon_enabled_def initThree_def loaded_def initCannon_def
        Let_def f fold_addLink World_new_def addBody_def addContactMaterial_def addShape_def
        Body_new_def add.commute)
    done
qed

lemma startup_fields:
  "sphereShape (startup rnd now0) = Sphere 1.3"
  "sphereBody (startup rnd now0) = 0"
  "lastCallTime (startup rnd now0) = now0"
  "balls (startup rnd now0) = []"
  "ballMeshes (startup rnd now0) = []"
  "length (boxes (startup rnd now0)) = 110"
  "length (boxMeshes (startup rnd now0)) = 110"
  "length (bodies (world (startup rnd now0))) = 112"
  "position (bodies (world (startup rnd now0)) ! 0) = Vec3 0 5 0"
  using startup_explicit [of rnd now0] by (auto simp: N_def)


lemma startup_chain_body:
  assumes "102 \<le> k" and "k < 112"
  shows "bodies (world (startup rnd now0)) ! k =
     \<lparr>mass = (if k = 102 then 0 else mass'), material = None, shapes = [boxShape2],
      position = Vec3 5 ((real N - real (k - 102)) * (size' * 2 + 2 * space) + size' * 2 + space) 0,
      quaternion = Quaternion 0 0 0 1, velocity = Vec3 0 0 0,
      linearDamping = 0.01, angularDamping = 0.01\<rparr>"
proof -
  have k: "k - 102 < 10" "\<not> k < 2" "\<not> k - 2 < 100" "k - 2 - 100 = k - 102"
    using assms by simp_all
  show ?thesis
    using startup_explicit [of rnd now0] k assms
    by (auto simp: nth_append N_def)
qed

section \<open>The chain of linked boxes\<close>

text \<open>
  C6. Start-up adds exactly \<open>N = 10\<close> linked boxes to the world, after the avatar, the
  ground and the 100 free boxes, from the top down (the heights fall with the index).
  Box 0 has mass 0, boxes 1 to 9 have mass 0.3, and all have linear and angular damping
  0.01. The constraints of the world are, for each \<open>i\<close> from 1 to 9 and in this order,
  the two point-to-point constraints between box \<open>i\<close> and box \<open>i - 1\<close>, with the pivots
  \<open>(\<mp>size, size + space, 0)\<close> on box \<open>i\<close> and \<open>(\<mp>size, - size - space, 0)\<close> on box
  \<open>i - 1\<close>, and no others.
\<close>

theorem chain_assembly:
  "N = 10 \<and> size' = 0.5 \<and> space = 0.05 \<and>
   length (bodies (world (startup rnd now0))) = 102 + N \<and>
   drop 102 (bodies (world (startup rnd now0))) =
     map (\<lambda>i. \<lparr>mass = (if i = 0 then 0 else 0.3), material = None,
               shapes = [Box (Vec3 size' size' (size' * 0.1))],
               position = Vec3 5 ((real N - real i) * (size' * 2 + 2 * space) + size' * 2 + space) 0,
               quaternion = Quaternion 0 0 0 1, velocity = Vec3 0 0 0,
               linearDamping = 0.01, angularDamping = 0.01\<rparr>) [0..<N] \<and>
   constraints (world (startup rnd now0)) =
     concat (map (\<lambda>i.
       [\<lparr>bodyA = InWorld (102 + i), pivotA = Vec3 (- size') (size' + space) 0,
         bodyB = InWorld (102 + i - 1), pivotB = Vec3 (- size') (- size' - space) 0\<rparr>,
        \<lparr>bodyA = InWorld (102 + i), pivotA = Vec3 size' (size' + space) 0,
         bodyB = InWorld (102 + i - 1), pivotB = Vec3 size' (- size' - space) 0\<rparr>])
       [1..<N])"
  using startup_explicit [of rnd now0]
  by (auto simp: N_def size'_def space_def mass'_def boxShape2_def halfExtents2_def)


section \<open>Evaluating the arithmetic in doubles\<close>

lemma expo_up_numeral:
  "expo_up (numeral k) a = (if 2 \<le> a then 1 + expo_up (pred_numeral k) (a / 2) else 0)"
  by (simp add: numeral_eq_Suc)

lemma expo_down_numeral:
  "expo_down (numeral k) a = (if a < 1 then expo_down (pred_numeral k) (a * 2) - 1 else 0)"
  by (simp add: numeral_eq_Suc)

lemmas fl_eval = fl_def exponent_def expo_up_numeral expo_down_numeral pow2_def
  roundTiesToEven_def Let_def


text \<open>The literal \<^verbatim>\<open>0.1\<close> is not a double; \<^verbatim>\<open>0.5\<close> is.\<close>

lemma literals_double:
  "fl 0.1 = 3602879701896397 / 36028797018963968"
  "fl 0.5 = 1 / 2"
  by (simp_all add: fl_eval)








section \<open>A click while the controller is enabled\<close>

text \<open>What the listener does to the state when it does not return at once.\<close>

lemma click_enabled:
  assumes "enabled s" and "sphereBody s < length (bodies (world s))"
  shows "click ev u s =
     (let d = getShootDirection u s;
          a = position (bodies (world s) ! sphereBody s);
          k = radius (sphereShape s) * 1.02 + radius ballShape;
          ball = \<lparr>mass = 1, material = None, shapes = [SphereShape ballShape],
                  position = Vec3 (vx a + vx d * k) (vy a + vy d * k) (vz a + vz d * k),
                  quaternion = Quaternion 0 0 0 1,
                  velocity = Vec3 (vx d * shootVelocity) (vy d * shootVelocity) (vz d * shootVelocity),
                  linearDamping = 0.01, angularDamping = 0.01\<rparr>
      in s\<lparr>world := (world s)\<lparr>bodies := bodies (world s) @ [ball]\<rparr>,
           scene := scene s @ [BallMesh (length (ballMeshes s))],
           balls := balls s @ [length (bodies (world s))],
           ballMeshes := ballMeshes s @
             [\<lparr>mesh_position = position ball, mesh_quaternion = Quaternion 0 0 0 1,
               castShadow = True, receiveShadow = True\<rparr>]\<rparr>)"
  using assms
  by (simp add: click_def Let_def getShootDirection_def addBody_def updBody_def
      addShape_def Body_new_def Mesh_new_def nth_append)

lemma vlength_scale:
  "vlength (Vec3 (vx d * k) (vy d * k) (vz d * k)) = \<bar>k\<bar> * vlength d"
proof -
  have "vx d * k * (vx d * k) + vy d * k * (vy d * k) + vz d * k * (vz d * k)
        = (k * k) * (vx d * vx d + vy d * vy d + vz d * vz d)"
    by (simp add: algebra_simps)
  then show ?thesis
    by (simp add: vlength_def real_sqrt_mult)
qed

lemma vlength_nonneg: "0 \<le> vlength a"
  by (simp add: vlength_def)

lemma vlength_normalize:
  assumes "vlength a \<noteq> 0"
  shows "vlength (normalize a) = 1"
proof -
  have pos: "0 < vlength a" using assms vlength_nonneg [of a] by simp
  have "normalize a = Vec3 (vx a * (1 / vlength a)) (vy a * (1 / vlength a)) (vz a * (1 / vlength a))"
    using assms by (simp add: normalize_def Let_def)
  then have "vlength (normalize a) = \<bar>1 / vlength a\<bar> * vlength a"
    by (simp only: vlength_scale)
  with pos show ?thesis by simp
qed

lemma vlength_zero_iff: "vlength a = 0 \<longleftrightarrow> a = Vec3 0 0 0"
proof
  assume "vlength a = 0"
  then have "vx a * vx a + vy a * vy a + vz a * vz a = 0"
    by (simp add: vlength_def)
  then have "vx a = 0 \<and> vy a = 0 \<and> vz a = 0"
    by (smt (verit) mult_eq_0_iff zero_le_square add_nonneg_eq_0_iff add_nonneg_nonneg)
  then show "a = Vec3 0 0 0"
    by (cases a) simp
next
  assume "a = Vec3 0 0 0"
  then show "vlength a = 0" by (simp add: vlength_def)
qed

lemma vsub_zero_iff: "vsub u p = Vec3 0 0 0 \<longleftrightarrow> u = p"
  by (cases u; cases p) (simp add: vsub_def)

lemma shootDirection_unit:
  "unprojected \<noteq> position (bodies (world s) ! sphereBody s) \<Longrightarrow>
     vlength (getShootDirection unprojected s) = 1"
  by (simp add: getShootDirection_def vlength_normalize vlength_zero_iff vsub_zero_iff)

lemma vsub_offset:
  "vsub (Vec3 (vx a + vx d * k) (vy a + vy d * k) (vz a + vz d * k)) a
     = Vec3 (vx d * k) (vy d * k) (vz d * k)"
  by (simp add: vsub_def)

lemma startup_locked:
  "enabled (onLock (startup rnd now0))"
  "sphereBody (onLock (startup rnd now0)) < length (bodies (world (onLock (startup rnd now0))))"
  "sphereShape (onLock (startup rnd now0)) = Sphere 1.3"
  "position (bodies (world (onLock (startup rnd now0))) ! sphereBody (onLock (startup rnd now0)))
     = Vec3 0 5 0"
  by (simp_all add: onLock_def startup_fields)

lemma physicsFrame_keeps:
  assumes "physicsFrame wstep dt s = Inr s'"
  shows "sphereShape s' = sphereShape s" and "sphereBody s' = sphereBody s"
    and "world s' = wstep timeStep dt (world s)" and "enabled s' = enabled s"
  using assms by (auto simp: physicsFrame_def Let_def split: sum.splits)

lemma handle_keeps_avatar:
  assumes "handle wstep e s = Inr s'"
  shows "sphereShape s' = sphereShape s \<and> sphereBody s' = sphereBody s"
proof (cases e)
  case (Frame now desired)
  with assms show ?thesis
    by (auto simp: animate_def Let_def controls_update_def physicsFrame_keeps
        split: sum.splits if_splits)
next
  case (Click ev u)
  with assms show ?thesis by (auto simp: click_def Let_def)
next
  case Lock
  with assms show ?thesis by (auto simp: onLock_def)
next
  case Unlock
  with assms show ?thesis by (auto simp: onUnlock_def)
qed

lemma handle_grows_world:
  assumes "\<And>fixedDt dt w. length (bodies (wstep fixedDt dt w)) = length (bodies w)"
    and "handle wstep e s = Inr s'"
  shows "length (bodies (world s)) \<le> length (bodies (world s'))"
proof (cases e)
  case (Frame now desired)
  with assms show ?thesis
    by (auto simp: animate_def Let_def controls_update_def physicsFrame_keeps updBody_def
        split: sum.splits if_splits)
next
  case (Click ev u)
  with assms(2) show ?thesis by (auto simp: click_def Let_def addBody_def updBody_def)
next
  case Lock
  with assms(2) show ?thesis by (auto simp: onLock_def)
next
  case Unlock
  with assms(2) show ?thesis by (auto simp: onUnlock_def)
qed

lemma run_keeps_avatar:
  assumes "\<And>fixedDt dt w. length (bodies (wstep fixedDt dt w)) = length (bodies w)"
    and "run wstep es s = Inr s'"
  shows "sphereShape s' = sphereShape s \<and> sphereBody s' = sphereBody s \<and>
         length (bodies (world s)) \<le> length (bodies (world s'))"
  using assms(2)
proof (induction es arbitrary: s)
  case Nil
  then show ?case by simp
next
  case (Cons e es)
  then obtain s1 where h: "handle wstep e s = Inr s1" and r: "run wstep es s1 = Inr s'"
    by (auto split: sum.splits)
  from handle_keeps_avatar [OF h] handle_grows_world [OF assms(1) h] Cons.IH [OF r]
  show ?case by simp
qed

text \<open>In every state reached from start-up the avatar's shape is the sphere of radius
  1.3 and \<^verbatim>\<open>sphereBody\<close> is a body of the world, if the library's step keeps the number
  of bodies.\<close>

lemma reachable_avatar:
  assumes "\<And>fixedDt dt w. length (bodies (wstep fixedDt dt w)) = length (bodies w)"
    and "run wstep es (startup rnd now0) = Inr s'"
  shows "sphereShape s' = Sphere 1.3 \<and> sphereBody s' < length (bodies (world s'))"
  using run_keeps_avatar [OF assms] by (auto simp: startup_fields)

text \<open>
  C3. A click that is processed (the controller enabled, \<^verbatim>\<open>sphereBody\<close> a body of the
  world, the avatar's shape the sphere of radius 1.3 that start-up gives it, as in every
  state that \<open>reachable_avatar\<close> covers) appends one
  body, a sphere of radius 0.2, at the avatar's position plus the shoot direction times
  \<open>1.3 * 1.02 + 0.2\<close>. When the unprojected point is not the avatar's centre, the shoot
  direction is a unit vector, so the ball's centre is \<open>1.3 * 1.02 + 0.2\<close> away from the
  avatar's, which is at least the sum \<open>1.3 + 0.2\<close> of the two radii: the two spheres do
  not intersect.
\<close>

theorem ball_spawns_outside_avatar:
  assumes "enabled s" and "sphereBody s < length (bodies (world s))"
    and "sphereShape s = Sphere 1.3"
  shows "bodies (world (click ev unprojected s)) =
           bodies (world s) @ [last (bodies (world (click ev unprojected s)))] \<and>
         shapes (last (bodies (world (click ev unprojected s)))) = [SphereShape (Sphere 0.2)] \<and>
         position (last (bodies (world (click ev unprojected s)))) =
           Vec3 (vx (position (bodies (world s) ! sphereBody s)) +
                   vx (getShootDirection unprojected s) * (1.3 * 1.02 + 0.2))
                (vy (position (bodies (world s) ! sphereBody s)) +
                   vy (getShootDirection unprojected s) * (1.3 * 1.02 + 0.2))
                (vz (position (bodies (world s) ! sphereBody s)) +
                   vz (getShootDirection unprojected s) * (1.3 * 1.02 + 0.2)) \<and>
         (unprojected \<noteq> position (bodies (world s) ! sphereBody s) \<longrightarrow>
            vlength (getShootDirection unprojected s) = 1 \<and>
            vlength (vsub (position (last (bodies (world (click ev unprojected s)))))
                          (position (bodies (world s) ! sphereBody s))) = 1.3 * 1.02 + 0.2 \<and>
            1.3 + 0.2 \<le>
            vlength (vsub (position (last (bodies (world (click ev unprojected s)))))
                          (position (bodies (world s) ! sphereBody s))))"
proof -
  let ?a = "position (bodies (world s) ! sphereBody s)"
  let ?d = "getShootDirection unprojected s"
  let ?ball = "last (bodies (world (click ev unprojected s)))"
  have b: "bodies (world (click ev unprojected s)) = bodies (world s) @ [?ball]"
    by (simp add: click_enabled [OF assms(1,2)] Let_def)
  have sh: "shapes ?ball = [SphereShape (Sphere 0.2)]"
    by (simp add: click_enabled [OF assms(1,2)] Let_def ballShape_def)
  have p: "position ?ball =
      Vec3 (vx ?a + vx ?d * (1.3 * 1.02 + 0.2)) (vy ?a + vy ?d * (1.3 * 1.02 + 0.2))
           (vz ?a + vz ?d * (1.3 * 1.02 + 0.2))"
    by (simp add: click_enabled [OF assms(1,2)] Let_def ballShape_def assms(3))
  have dist: "vlength (vsub (position ?ball) ?a) = \<bar>1.3 * 1.02 + 0.2\<bar> * vlength ?d"
    by (simp only: p vsub_offset vlength_scale)
  have u: "vlength (vsub (position ?ball) ?a) = 1.3 * 1.02 + 0.2 \<and>
           1.3 + 0.2 \<le> vlength (vsub (position ?ball) ?a) \<and> vlength ?d = 1"
    if "unprojected \<noteq> ?a"
    using dist shootDirection_unit [OF that] by simp
  from b sh p u show ?thesis by blast
qed

theorem ball_spawns_outside_avatar_witness:
  "enabled (onLock (startup (\<lambda>k. 0) 0)) \<and>
   sphereBody (onLock (startup (\<lambda>k. 0) 0)) < length (bodies (world (onLock (startup (\<lambda>k. 0) 0)))) \<and>
   sphereShape (onLock (startup (\<lambda>k. 0) 0)) = Sphere 1.3 \<and>
   Vec3 0 5 1000 \<noteq>
     position (bodies (world (onLock (startup (\<lambda>k. 0) 0))) ! sphereBody (onLock (startup (\<lambda>k. 0) 0))) \<and>
   shapes (last (bodies (world (click \<lparr>clientX = 3, clientY = 4\<rparr> (Vec3 0 5 1000)
      (onLock (startup (\<lambda>k. 0) 0)))))) = [SphereShape (Sphere 0.2)] \<and>
   vlength (getShootDirection (Vec3 0 5 1000) (onLock (startup (\<lambda>k. 0) 0))) = 1 \<and>
   vlength (vsub
     (position (last (bodies (world (click \<lparr>clientX = 3, clientY = 4\<rparr> (Vec3 0 5 1000)
        (onLock (startup (\<lambda>k. 0) 0)))))))
     (position (bodies (world (onLock (startup (\<lambda>k. 0) 0))) ! sphereBody (onLock (startup (\<lambda>k. 0) 0)))))
     = 1.3 * 1.02 + 0.2 \<and>
   1.3 + 0.2 \<le> vlength (vsub
     (position (last (bodies (world (click \<lparr>clientX = 3, clientY = 4\<rparr> (Vec3 0 5 1000)
        (onLock (startup (\<lambda>k. 0) 0)))))))
     (position (bodies (world (onLock (startup (\<lambda>k. 0) 0))) ! sphereBody (onLock (startup (\<lambda>k. 0) 0)))))"
proof -
  have ne: "Vec3 0 5 1000 \<noteq>
     position (bodies (world (onLock (startup (\<lambda>k. 0) 0))) ! sphereBody (onLock (startup (\<lambda>k. 0) 0)))"
    by (simp add: startup_locked)
  note h = startup_locked(1-3) [of "\<lambda>k. 0" 0]
  show ?thesis
    using ne h
      ball_spawns_outside_avatar [OF h, of "\<lparr>clientX = 3, clientY = 4\<rparr>" "Vec3 0 5 1000"]
    by blast
qed




text \<open>
  On the exact values of the source's formulas the ball of a processed click leaves with
  speed 15 whenever the unprojected point is not the avatar's centre, and with the
  velocity \<open>(0, 0, 15)\<close> whenever that point is straight ahead of the avatar in the
  positive z direction. The doubles of the program round each operation, and keep neither
  fact in general.
\<close>

lemma ball_speed_exact:
  assumes "enabled s" and "sphereBody s < length (bodies (world s))"
    and "unprojected \<noteq> position (bodies (world s) ! sphereBody s)"
  shows "vlength (velocity (last (bodies (world (click ev unprojected s))))) = 15"
  using shootDirection_unit [OF assms(3)]
  by (simp add: click_enabled [OF assms(1,2)] Let_def shootVelocity_def vlength_scale)

lemma ball_velocity_ahead_exact:
  assumes "enabled s" and "sphereBody s < length (bodies (world s))"
    and "vx unprojected = vx (position (bodies (world s) ! sphereBody s))"
    and "vy unprojected = vy (position (bodies (world s) ! sphereBody s))"
    and "vz (position (bodies (world s) ! sphereBody s)) < vz unprojected"
  shows "velocity (last (bodies (world (click ev unprojected s)))) = Vec3 0 0 15"
  using assms(3-5)
  by (simp add: click_enabled [OF assms(1,2)] Let_def shootVelocity_def getShootDirection_def
      vsub_def normalize_def vlength_def)




section \<open>Frames while the controller is enabled\<close>

text \<open>The copy loop raises nothing when there is a mesh for every reference, and then
  leaves every mesh with the pose of its body.\<close>

lemma syncLoop_result:
  assumes "length refs \<le> length ms"
  shows "\<exists>ms'. syncLoop w refs i ms = Inr ms' \<and> length ms' = length ms \<and>
           (\<forall>j<length ms. ms' ! j =
              (if i \<le> j \<and> j < length refs then copyPose (bodies w ! (refs ! j)) (ms ! j)
               else ms ! j))"
  using assms
proof (induction w refs i ms rule: syncLoop.induct)
  case (1 w refs i ms)
  show ?case
  proof (cases "i < length refs")
    case False
    then show ?thesis by (subst syncLoop.simps) auto
  next
    case True
    with "1.prems" have im: "i < length ms" by simp
    let ?ms1 = "ms[i := copyPose (bodies w ! (refs ! i)) (ms ! i)]"
    have "length refs \<le> length ?ms1" using "1.prems" by simp
    from "1.IH" [OF True im this]
    obtain ms' where r: "syncLoop w refs (Suc i) ?ms1 = Inr ms'"
      and l: "length ms' = length ?ms1"
      and c: "\<forall>j<length ?ms1. ms' ! j =
              (if Suc i \<le> j \<and> j < length refs then copyPose (bodies w ! (refs ! j)) (?ms1 ! j)
               else ?ms1 ! j)"
      by blast
    have "syncLoop w refs i ms = Inr ms'"
      using True im r by (subst syncLoop.simps) simp
    moreover have "length ms' = length ms" using l by simp
    moreover have "\<forall>j<length ms. ms' ! j =
              (if i \<le> j \<and> j < length refs then copyPose (bodies w ! (refs ! j)) (ms ! j)
               else ms ! j)"
    proof (intro allI impI)
      fix j assume j: "j < length ms"
      show "ms' ! j = (if i \<le> j \<and> j < length refs then copyPose (bodies w ! (refs ! j)) (ms ! j)
               else ms ! j)"
      proof (cases "j = i")
        case True
        then show ?thesis using c j im \<open>i < length refs\<close> by simp
      next
        case False
        then show ?thesis using c j by (auto simp: Suc_le_eq)
      qed
    qed
    ultimately show ?thesis by blast
  qed
qed

lemma syncLoop_mirrors:
  assumes "length ms = length refs"
  shows "\<exists>ms'. syncLoop w refs 0 ms = Inr ms' \<and> mirrors w refs ms'"
proof -
  from syncLoop_result [of refs ms w 0] assms
  obtain ms' where r: "syncLoop w refs 0 ms = Inr ms'" and l: "length ms' = length ms"
    and c: "\<forall>j<length ms. ms' ! j =
              (if 0 \<le> j \<and> j < length refs then copyPose (bodies w ! (refs ! j)) (ms ! j)
               else ms ! j)"
    by auto
  have "mirrors w refs ms'"
    using l c assms by (simp add: mirrors_def list_all2_conv_all_nth copyPose_def)
  with r show ?thesis by blast
qed

lemma mirrors_length: "mirrors w refs ms \<Longrightarrow> length ms = length refs"
  by (simp add: mirrors_def list_all2_lengthD)

lemma physicsFrame_result:
  assumes "length (ballMeshes s) = length (balls s)" and "length (boxMeshes s) = length (boxes s)"
  shows "\<exists>bm xm. physicsFrame wstep dt s =
           Inr (s\<lparr>world := wstep timeStep dt (world s), ballMeshes := bm, boxMeshes := xm\<rparr>) \<and>
           mirrors (wstep timeStep dt (world s)) (balls s) bm \<and>
           mirrors (wstep timeStep dt (world s)) (boxes s) xm"
proof -
  from syncLoop_mirrors [OF assms(1), of "wstep timeStep dt (world s)"]
  obtain bm where b: "syncLoop (wstep timeStep dt (world s)) (balls s) 0 (ballMeshes s) = Inr bm"
    and mb: "mirrors (wstep timeStep dt (world s)) (balls s) bm"
    by blast
  from syncLoop_mirrors [OF assms(2), of "wstep timeStep dt (world s)"]
  obtain xm where x: "syncLoop (wstep timeStep dt (world s)) (boxes s) 0 (boxMeshes s) = Inr xm"
    and mx: "mirrors (wstep timeStep dt (world s)) (boxes s) xm"
    by blast
  have "physicsFrame wstep dt s =
      Inr (s\<lparr>world := wstep timeStep dt (world s), ballMeshes := bm, boxMeshes := xm\<rparr>)"
    by (simp add: physicsFrame_def Let_def b x)
  with mb mx show ?thesis by blast
qed

text \<open>Writing a velocity does not disturb a mirror.\<close>

lemma mirrors_updBody_velocity:
  "mirrors (updBody r (\<lambda>b. b\<lparr>velocity := v b\<rparr>) w) refs ms = mirrors w refs ms"
proof -
  have "position (bodies (updBody r (\<lambda>b. b\<lparr>velocity := v b\<rparr>) w) ! k) = position (bodies w ! k) \<and>
        quaternion (bodies (updBody r (\<lambda>b. b\<lparr>velocity := v b\<rparr>) w) ! k) = quaternion (bodies w ! k)"
    for k
  proof (cases "r < length (bodies w)")
    case True
    then show ?thesis by (simp add: updBody_def nth_list_update)
  next
    case False
    then show ?thesis by (simp add: updBody_def list_update_beyond)
  qed
  then show ?thesis by (simp add: mirrors_def)
qed

lemma animate_enabled:
  assumes "enabled s"
    and "length (ballMeshes s) = length (balls s)" and "length (boxMeshes s) = length (boxes s)"
  shows "\<exists>s'. animate wstep now desired s = Inr s' \<and>
           mirrors (world s') (balls s') (ballMeshes s') \<and>
           mirrors (world s') (boxes s') (boxMeshes s') \<and>
           balls s' = balls s \<and> boxes s' = boxes s \<and> enabled s' \<and>
           lastCallTime s' = now / 1000 \<and>
           sphereBody s' = sphereBody s \<and> sphereShape s' = sphereShape s"
proof -
  let ?s1 = "s\<lparr>lastCallTime := now / 1000\<rparr>"
  let ?dt = "now / 1000 - lastCallTime s"
  have l: "length (ballMeshes ?s1) = length (balls ?s1)" "length (boxMeshes ?s1) = length (boxes ?s1)"
    using assms by simp_all
  from physicsFrame_result [OF l, of wstep ?dt]
  obtain bm xm where p: "physicsFrame wstep ?dt ?s1 =
           Inr (?s1\<lparr>world := wstep timeStep ?dt (world ?s1), ballMeshes := bm, boxMeshes := xm\<rparr>)"
    and mb: "mirrors (wstep timeStep ?dt (world ?s1)) (balls ?s1) bm"
    and mx: "mirrors (wstep timeStep ?dt (world ?s1)) (boxes ?s1) xm"
    by blast
  let ?s2 = "?s1\<lparr>world := wstep timeStep ?dt (world ?s1), ballMeshes := bm, boxMeshes := xm\<rparr>"
  have a: "animate wstep now desired s = Inr (controls_update desired ?dt ?s2)"
    using assms(1) p by (simp add: animate_def Let_def)
  show ?thesis
    using a mb mx assms(1)
    by (simp add: controls_update_def mirrors_updBody_velocity)
qed

lemma click_lengths:
  "length (balls (click ev u s)) = (if enabled s then Suc (length (balls s)) else length (balls s))"
  "length (ballMeshes (click ev u s)) =
     (if enabled s then Suc (length (ballMeshes s)) else length (ballMeshes s))"
  "boxes (click ev u s) = boxes s"
  "boxMeshes (click ev u s) = boxMeshes s"
  by (simp_all add: click_def Let_def)

lemma click_appends:
  assumes "enabled s"
  shows "balls (click ev u s) = balls s @ [length (bodies (world s))]"
    and "length (bodies (world (click ev u s))) = Suc (length (bodies (world s)))"
    and "take (length (ballMeshes s)) (ballMeshes (click ev u s)) = ballMeshes s"
    and "mirrors (world (click ev u s)) [last (balls (click ev u s))]
           [last (ballMeshes (click ev u s))]"
  using assms
  by (simp_all add: click_def Let_def addBody_def updBody_def mirrors_def Mesh_new_def
      Body_new_def addShape_def)

lemma handle_keeps_lengths:
  assumes "length (ballMeshes s) = length (balls s)" and "length (boxMeshes s) = length (boxes s)"
  shows "\<exists>s'. handle wstep e s = Inr s' \<and>
           length (ballMeshes s') = length (balls s') \<and>
           length (boxMeshes s') = length (boxes s') \<and>
           length (boxMeshes s') = length (boxMeshes s) \<and>
           length (ballMeshes s) \<le> length (ballMeshes s')"
proof (cases e)
  case (Frame now desired)
  show ?thesis
  proof (cases "enabled s")
    case True
    from animate_enabled [OF True assms, of wstep now desired]
    obtain s' where a: "animate wstep now desired s = Inr s'"
      and mb: "mirrors (world s') (balls s') (ballMeshes s')"
      and mx: "mirrors (world s') (boxes s') (boxMeshes s')"
      and eq: "balls s' = balls s" "boxes s' = boxes s"
      by blast
    show ?thesis
      using Frame a mirrors_length [OF mb] mirrors_length [OF mx] eq assms by simp
  next
    case False
    then show ?thesis using Frame assms by (simp add: animate_disabled)
  qed
next
  case (Click ev u)
  then show ?thesis using assms by (simp add: click_lengths)
next
  case Lock
  then show ?thesis using assms by (simp add: onLock_def)
next
  case Unlock
  then show ?thesis using assms by (simp add: onUnlock_def)
qed

lemma run_keeps_lengths:
  assumes "length (ballMeshes s) = length (balls s)" and "length (boxMeshes s) = length (boxes s)"
  shows "\<exists>s'. run wstep es s = Inr s' \<and>
           length (ballMeshes s') = length (balls s') \<and>
           length (boxMeshes s') = length (boxes s') \<and>
           length (boxMeshes s') = length (boxMeshes s)"
  using assms
proof (induction es arbitrary: s)
  case Nil
  then show ?case by simp
next
  case (Cons e es)
  from handle_keeps_lengths [OF Cons.prems, of wstep e]
  obtain s1 where h: "handle wstep e s = Inr s1"
    and l: "length (ballMeshes s1) = length (balls s1)" "length (boxMeshes s1) = length (boxes s1)"
    and k: "length (boxMeshes s1) = length (boxMeshes s)"
    by blast
  from Cons.IH [OF l] obtain s' where "run wstep es s1 = Inr s'"
    "length (ballMeshes s') = length (balls s')" "length (boxMeshes s') = length (boxes s')"
    "length (boxMeshes s') = length (boxMeshes s1)"
    by blast
  then show ?case using h k by simp
qed

text \<open>
  C8, as the code has it. In every state \<open>s'\<close> that a run of events reaches from
  start-up without raising, and it never raises, each mesh array has the length of the
  array of bodies it mirrors: \<^verbatim>\<open>ballMeshes\<close> that of \<^verbatim>\<open>balls\<close>, \<^verbatim>\<open>boxMeshes\<close> that
  of \<^verbatim>\<open>boxes\<close>, which stays 110. For the next event, with \<open>s''\<close> the state after it:
  no mesh array gets shorter; a frame with the controller enabled leaves, after the
  physics step, every mesh with the position and orientation of the body of the same
  index; a frame with the controller disabled copies nothing; a processed click appends
  one body to the world, its reference to \<^verbatim>\<open>balls\<close> and its mesh, which has its pose,
  at the end of \<^verbatim>\<open>ballMeshes\<close>, the older meshes staying where they were.
\<close>

theorem proxies_follow_bodies:
  "\<exists>s' s''. run wstep es (startup rnd now0) = Inr s' \<and> handle wstep e s' = Inr s'' \<and>
     length (ballMeshes s') = length (balls s') \<and>
     length (boxMeshes s') = length (boxes s') \<and>
     length (boxMeshes s') = 110 \<and>
     length (ballMeshes s') \<le> length (ballMeshes s'') \<and>
     length (boxMeshes s'') = length (boxMeshes s') \<and>
     (case e of
        Frame now desired \<Rightarrow>
          if enabled s'
          then mirrors (world s'') (balls s'') (ballMeshes s'') \<and>
               mirrors (world s'') (boxes s'') (boxMeshes s'') \<and>
               balls s'' = balls s' \<and> boxes s'' = boxes s'
          else ballMeshes s'' = ballMeshes s' \<and> boxMeshes s'' = boxMeshes s' \<and>
               world s'' = world s'
      | Click ev u \<Rightarrow>
          if enabled s'
          then length (bodies (world s'')) = Suc (length (bodies (world s'))) \<and>
               balls s'' = balls s' @ [length (bodies (world s'))] \<and>
               length (ballMeshes s'') = Suc (length (ballMeshes s')) \<and>
               take (length (ballMeshes s')) (ballMeshes s'') = ballMeshes s' \<and>
               mirrors (world s'') [last (balls s'')] [last (ballMeshes s'')] \<and>
               boxes s'' = boxes s' \<and> boxMeshes s'' = boxMeshes s'
          else s'' = s'
      | Lock \<Rightarrow> s'' = onLock s'
      | Unlock \<Rightarrow> s'' = onUnlock s')"
proof -
  have l0: "length (ballMeshes (startup rnd now0)) = length (balls (startup rnd now0))"
    "length (boxMeshes (startup rnd now0)) = length (boxes (startup rnd now0))"
    by (simp_all add: startup_fields)
  from run_keeps_lengths [OF l0, of wstep es]
  obtain s' where r: "run wstep es (startup rnd now0) = Inr s'"
    and l: "length (ballMeshes s') = length (balls s')" "length (boxMeshes s') = length (boxes s')"
    and k: "length (boxMeshes s') = 110"
    by (auto simp: startup_fields)
  from handle_keeps_lengths [OF l, of wstep e]
  obtain s'' where h: "handle wstep e s' = Inr s''"
    and m: "length (ballMeshes s') \<le> length (ballMeshes s'')"
      "length (boxMeshes s'') = length (boxMeshes s')"
    by blast
  have "case e of
        Frame now desired \<Rightarrow>
          if enabled s'
          then mirrors (world s'') (balls s'') (ballMeshes s'') \<and>
               mirrors (world s'') (boxes s'') (boxMeshes s'') \<and>
               balls s'' = balls s' \<and> boxes s'' = boxes s'
          else ballMeshes s'' = ballMeshes s' \<and> boxMeshes s'' = boxMeshes s' \<and>
               world s'' = world s'
      | Click ev u \<Rightarrow>
          if enabled s'
          then length (bodies (world s'')) = Suc (length (bodies (world s'))) \<and>
               balls s'' = balls s' @ [length (bodies (world s'))] \<and>
               length (ballMeshes s'') = Suc (length (ballMeshes s')) \<and>
               take (length (ballMeshes s')) (ballMeshes s'') = ballMeshes s' \<and>
               mirrors (world s'') [last (balls s'')] [last (ballMeshes s'')] \<and>
               boxes s'' = boxes s' \<and> boxMeshes s'' = boxMeshes s'
          else s'' = s'
      | Lock \<Rightarrow> s'' = onLock s'
      | Unlock \<Rightarrow> s'' = onUnlock s'"
  proof (cases e)
    case (Frame now desired)
    show ?thesis
    proof (cases "enabled s'")
      case True
      from animate_enabled [OF True l, of wstep now desired] h Frame True
      show ?thesis by auto
    next
      case False
      then show ?thesis using Frame h by (auto simp: animate_disabled)
    qed
  next
    case (Click ev u)
    show ?thesis
    proof (cases "enabled s'")
      case True
      then show ?thesis
        using Click h click_appends [OF True, of ev u] click_lengths [of ev u s'] by auto
    next
      case False
      then show ?thesis using Click h by (auto simp: click_disabled)
    qed
  next
    case Lock
    then show ?thesis using h by auto
  next
    case Unlock
    then show ?thesis using h by auto
  qed
  with r h l k m show ?thesis by blast
qed

theorem proxies_follow_bodies_witness:
  "\<exists>s' s''.
     run (\<lambda>fixedDt dt w. w) [Frame 16 (0, 0), Lock, Click \<lparr>clientX = 3, clientY = 4\<rparr> (Vec3 0 5 1000)]
       (startup (\<lambda>k. 0) 0) = Inr s' \<and>
     handle (\<lambda>fixedDt dt w. w) (Frame 33 (0, 0)) s' = Inr s'' \<and>
     enabled s' \<and> length (balls s') = 1 \<and> length (ballMeshes s') = 1 \<and>
     length (boxes s') = 110 \<and> length (boxMeshes s') = 110 \<and>
     mirrors (world s'') (balls s'') (ballMeshes s'') \<and>
     mirrors (world s'') (boxes s'') (boxMeshes s'')"
proof -
  let ?t = "click \<lparr>clientX = 3, clientY = 4\<rparr> (Vec3 0 5 1000)
              (onLock ((startup (\<lambda>k. 0) 0)\<lparr>lastCallTime := 16 / 1000\<rparr>))"
  have r: "run (\<lambda>fixedDt dt w. w) [Frame 16 (0, 0), Lock, Click \<lparr>clientX = 3, clientY = 4\<rparr> (Vec3 0 5 1000)]
       (startup (\<lambda>k. 0) 0) = Inr ?t"
    by (simp add: animate_disabled startup_disabled)
  have e: "enabled ?t"
    by (simp add: click_def Let_def onLock_def)
  have b: "length (balls ?t) = 1"
    by (simp add: click_lengths onLock_def startup_fields)
  from proxies_follow_bodies [of "\<lambda>fixedDt dt w. w"
      "[Frame 16 (0, 0), Lock, Click \<lparr>clientX = 3, clientY = 4\<rparr> (Vec3 0 5 1000)]"
      "\<lambda>k. 0" 0 "Frame 33 (0, 0)"]
  show ?thesis
    using r e b by auto
qed

text \<open>
  The mesh arrays do not mirror \<^verbatim>\<open>world.bodies\<close>, and not every frame copies. After
  start-up the world has 112 bodies (the avatar and the ground have no mesh) and the two
  mesh arrays together have 110 entries; and a frame with the controller disabled copies
  nothing: after it the mesh of the first linked box is still at the origin while its
  body is at \<open>(5, 12.05, 0)\<close>.
\<close>

theorem proxies_not_world_bodies_counterexample:
  "length (boxMeshes (startup (\<lambda>k. 0) 0) @ ballMeshes (startup (\<lambda>k. 0) 0)) = 110 \<and>
   length (bodies (world (startup (\<lambda>k. 0) 0))) = 112 \<and>
   length (boxMeshes (startup (\<lambda>k. 0) 0) @ ballMeshes (startup (\<lambda>k. 0) 0)) \<noteq>
     length (bodies (world (startup (\<lambda>k. 0) 0))) \<and>
   (\<exists>s'. animate (\<lambda>fixedDt dt w. w) 16 (0, 0) (startup (\<lambda>k. 0) 0) = Inr s' \<and>
      position (bodies (world s') ! (boxes s' ! 100)) = Vec3 5 (241 / 20) 0 \<and>
      mesh_position (boxMeshes s' ! 100) = Vec3 0 0 0 \<and>
      \<not> mirrors (world s') (boxes s') (boxMeshes s'))"
proof -
  let ?s = "startup (\<lambda>k. 0) 0"
  let ?s' = "?s\<lparr>lastCallTime := 16 / 1000\<rparr>"
  have a: "animate (\<lambda>fixedDt dt w. w) 16 (0, 0) ?s = Inr ?s'"
    by (simp add: animate_disabled startup_disabled)
  have b: "boxes ?s ! 100 = 102"
    using startup_explicit [of "\<lambda>k. 0" 0] by (auto simp: nth_append N_def)
  have p: "position (bodies (world ?s) ! 102) = Vec3 5 (241 / 20) 0"
    by (simp add: startup_chain_body N_def size'_def space_def)
  have m: "mesh_position (boxMeshes ?s ! 100) = Vec3 0 0 0"
    using startup_explicit [of "\<lambda>k. 0" 0] by (auto simp: nth_append N_def)
  have n: "\<not> mirrors (world ?s) (boxes ?s) (boxMeshes ?s)"
  proof
    assume "mirrors (world ?s) (boxes ?s) (boxMeshes ?s)"
    then have "mesh_position (boxMeshes ?s ! 100) = position (bodies (world ?s) ! (boxes ?s ! 100))"
      by (simp add: mirrors_def list_all2_conv_all_nth startup_fields)
    with b p m show False by simp
  qed
  show ?thesis
    using a b p m n by (simp add: startup_fields)
qed

section \<open>The timestamp of the frame loop\<close>

lemma run_disabled_frames:
  assumes "\<not> enabled s"
  shows "run wstep (map (\<lambda>(t, d). Frame t d) fs) s =
           Inr (if fs = [] then s else s\<lparr>lastCallTime := fst (last fs) / 1000\<rparr>)"
  using assms
proof (induction fs arbitrary: s)
  case Nil
  show ?case by simp
next
  case (Cons f fs)
  obtain t d where f: "f = (t, d)" by (cases f)
  have dis: "\<not> enabled (s\<lparr>lastCallTime := t / 1000\<rparr>)" using Cons.prems by simp
  show ?case
    using Cons.prems Cons.IH [OF dis] by (simp add: f animate_disabled)
qed

lemma physicsFrame_lastCallTime:
  "physicsFrame wstep dt s = Inr s' \<Longrightarrow> lastCallTime s' = lastCallTime s"
  by (auto simp: physicsFrame_def Let_def split: sum.splits)

lemma animate_lastCallTime:
  "animate wstep now desired s = Inr s' \<Longrightarrow> lastCallTime s' = now / 1000"
  by (auto simp: animate_def Let_def controls_update_def split: sum.splits if_splits
      dest: physicsFrame_lastCallTime)

text \<open>
  C9. Frames that run while the controller is disabled leave the world as it is and move
  \<^verbatim>\<open>lastCallTime\<close> to the time of the last of them. When the controller is then
  enabled, the next frame calls the library's step with \<open>dt\<close> the time since that last
  frame only: the world after it is the paused world stepped by that one interval (and
  then the controller's write of the avatar's horizontal velocity), for every step
  function.
\<close>

theorem paused_time_is_not_simulated:
  assumes "\<not> enabled s" and "fs \<noteq> []"
    and "length (ballMeshes s) = length (balls s)" and "length (boxMeshes s) = length (boxes s)"
  shows "\<exists>s1 s2.
      run wstep (map (\<lambda>(t, d). Frame t d) fs) s = Inr s1 \<and>
      world s1 = world s \<and> \<not> enabled s1 \<and>
      lastCallTime s1 = fst (last fs) / 1000 \<and>
      animate wstep now desired (onLock s1) = Inr s2 \<and>
      lastCallTime s2 = now / 1000 \<and>
      world s2 = updBody (sphereBody s)
        (\<lambda>b. b\<lparr>velocity := Vec3 (fst desired) (vy (velocity b)) (snd desired)\<rparr>)
        (wstep timeStep (now / 1000 - fst (last fs) / 1000) (world s))"
proof -
  let ?s1 = "s\<lparr>lastCallTime := fst (last fs) / 1000\<rparr>"
  let ?dt = "now / 1000 - fst (last fs) / 1000"
  have r: "run wstep (map (\<lambda>(t, d). Frame t d) fs) s = Inr ?s1"
    using run_disabled_frames [OF assms(1), of wstep fs] assms(2) by simp
  let ?s2 = "(onLock ?s1)\<lparr>lastCallTime := now / 1000\<rparr>"
  have l: "length (ballMeshes ?s2) = length (balls ?s2)" "length (boxMeshes ?s2) = length (boxes ?s2)"
    using assms(3,4) by (simp_all add: onLock_def)
  from physicsFrame_result [OF l, of wstep ?dt]
  obtain bm xm where p: "physicsFrame wstep ?dt ?s2 =
      Inr (?s2\<lparr>world := wstep timeStep ?dt (world ?s2), ballMeshes := bm, boxMeshes := xm\<rparr>)"
    by blast
  let ?s3 = "?s2\<lparr>world := wstep timeStep ?dt (world ?s2), ballMeshes := bm, boxMeshes := xm\<rparr>"
  have a: "animate wstep now desired (onLock ?s1) = Inr (controls_update desired ?dt ?s3)"
    using p by (simp add: animate_def Let_def onLock_def)
  have w: "world (controls_update desired ?dt ?s3) = updBody (sphereBody s)
        (\<lambda>b. b\<lparr>velocity := Vec3 (fst desired) (vy (velocity b)) (snd desired)\<rparr>)
        (wstep timeStep ?dt (world s))"
    by (simp add: controls_update_def onLock_def)
  have t: "lastCallTime (controls_update desired ?dt ?s3) = now / 1000"
    by (simp add: controls_update_def onLock_def)
  show ?thesis
    using r a w t assms(1) by simp
qed

theorem paused_time_is_not_simulated_witness:
  "\<not> enabled (startup (\<lambda>k. 0) 0) \<and>
   [(16, (0, 0)), (5016, (0, 0)), (10016, (0, 0))] \<noteq> ([] :: (real \<times> real \<times> real) list) \<and>
   length (ballMeshes (startup (\<lambda>k. 0) 0)) = length (balls (startup (\<lambda>k. 0) 0)) \<and>
   length (boxMeshes (startup (\<lambda>k. 0) 0)) = length (boxes (startup (\<lambda>k. 0) 0)) \<and>
   (\<exists>s1 s2.
      run (\<lambda>fixedDt dt w. w\<lparr>accumulator := accumulator w + dt\<rparr>)
        [Frame 16 (0, 0), Frame 5016 (0, 0), Frame 10016 (0, 0)] (startup (\<lambda>k. 0) 0) = Inr s1 \<and>
      world s1 = world (startup (\<lambda>k. 0) 0) \<and>
      lastCallTime s1 = 10016 / 1000 \<and>
      animate (\<lambda>fixedDt dt w. w\<lparr>accumulator := accumulator w + dt\<rparr>) 10033 (0, 0) (onLock s1)
        = Inr s2 \<and>
      accumulator (world s2) = 17 / 1000)"
proof -
  have a: "\<not> enabled (startup (\<lambda>k. 0) 0)"
    by (rule startup_disabled)
  have b: "[(16, (0, 0)), (5016, (0, 0)), (10016, (0, 0))] \<noteq> ([] :: (real \<times> real \<times> real) list)"
    by simp
  have c: "length (ballMeshes (startup (\<lambda>k. 0) 0)) = length (balls (startup (\<lambda>k. 0) 0))"
    "length (boxMeshes (startup (\<lambda>k. 0) 0)) = length (boxes (startup (\<lambda>k. 0) 0))"
    by (simp_all add: startup_fields)
  have acc: "accumulator (world (startup (\<lambda>k. 0) 0)) = 0"
    using startup_explicit [of "\<lambda>k. 0" 0] by auto
  from paused_time_is_not_simulated [OF a b c,
      of "\<lambda>fixedDt dt w. w\<lparr>accumulator := accumulator w + dt\<rparr>" 10033 "(0, 0)"]
  obtain s1 s2 where
    r: "run (\<lambda>fixedDt dt w. w\<lparr>accumulator := accumulator w + dt\<rparr>)
        [Frame 16 (0, 0), Frame 5016 (0, 0), Frame 10016 (0, 0)] (startup (\<lambda>k. 0) 0) = Inr s1"
    and w1: "world s1 = world (startup (\<lambda>k. 0) 0)"
    and t1: "lastCallTime s1 = 10016 / 1000"
    and an: "animate (\<lambda>fixedDt dt w. w\<lparr>accumulator := accumulator w + dt\<rparr>) 10033 (0, 0) (onLock s1)
        = Inr s2"
    and w2: "world s2 = updBody (sphereBody (startup (\<lambda>k. 0) 0))
        (\<lambda>b. b\<lparr>velocity := Vec3 (fst (0, 0)) (vy (velocity b)) (snd (0, 0))\<rparr>)
        ((world (startup (\<lambda>k. 0) 0))\<lparr>accumulator := accumulator (world (startup (\<lambda>k. 0) 0)) +
           (10033 / 1000 - fst (last [(16, (0, 0)), (5016, (0, 0)), (10016, (0 :: real, 0 :: real))]) / 1000)\<rparr>)"
    by auto
  have "accumulator (world s2) = 17 / 1000"
    by (simp add: w2 updBody_def acc)
  with a b c r w1 t1 an show ?thesis by blast
qed

section \<open>The accumulator of the specification and the chunking of time\<close>

text \<open>With a positive step the loop ends, after as many substeps as whole steps fit
  into the accumulated time.\<close>

lemma substeps_measure:
  assumes "0 < dt" and "dt \<le> a"
  shows "nat \<lfloor>a / dt\<rfloor> = Suc (nat \<lfloor>(a - dt) / dt\<rfloor>)"
proof -
  have "(a - dt) / dt = a / dt - 1"
    using assms(1) by (simp add: field_simps)
  then have e: "\<lfloor>(a - dt) / dt\<rfloor> = \<lfloor>a / dt\<rfloor> - 1"
    by simp
  have "1 \<le> a / dt" using assms by (simp add: field_simps)
  then have "1 \<le> \<lfloor>a / dt\<rfloor>" by (simp add: le_floor_iff)
  then have "nat \<lfloor>a / dt\<rfloor> = Suc (nat (\<lfloor>a / dt\<rfloor> - 1))" by arith
  with e show ?thesis by (simp only:)
qed

lemma substeps_stop:
  "\<not> dt \<le> fst p \<Longrightarrow> substeps integrate dt p = Some p"
  by (subst substeps.simps) simp

lemma substeps_go:
  "dt \<le> fst p \<Longrightarrow>
     substeps integrate dt p = substeps integrate dt (fst p - dt, integrate dt (snd p))"
  by (subst substeps.simps) simp

lemma substeps_closed_form:
  assumes "0 < dt"
  shows "substeps integrate dt p =
           Some (fst p - real (nat \<lfloor>fst p / dt\<rfloor>) * dt,
                 (integrate dt ^^ nat \<lfloor>fst p / dt\<rfloor>) (snd p))"
proof (induction "nat \<lfloor>fst p / dt\<rfloor>" arbitrary: p rule: less_induct)
  case less
  show ?case
  proof (cases "dt \<le> fst p")
    case False
    then have "fst p / dt < 1" using assms by (simp add: field_simps)
    then have "\<lfloor>fst p / dt\<rfloor> \<le> 0" by linarith
    then have "nat \<lfloor>fst p / dt\<rfloor> = 0" by simp
    then show ?thesis using False by (simp add: substeps_stop)
  next
    case True
    let ?p' = "(fst p - dt, integrate dt (snd p))"
    have k: "nat \<lfloor>fst p / dt\<rfloor> = Suc (nat \<lfloor>fst ?p' / dt\<rfloor>)"
      using substeps_measure [OF assms True] by simp
    then have "nat \<lfloor>fst ?p' / dt\<rfloor> < nat \<lfloor>fst p / dt\<rfloor>" by simp
    from less [OF this]
    have "substeps integrate dt ?p' =
            Some (fst p - dt - real (nat \<lfloor>(fst p - dt) / dt\<rfloor>) * dt,
                  (integrate dt ^^ nat \<lfloor>(fst p - dt) / dt\<rfloor>) (integrate dt (snd p)))"
      by simp
    moreover have "fst p - real (Suc (nat \<lfloor>(fst p - dt) / dt\<rfloor>)) * dt =
                   fst p - dt - real (nat \<lfloor>(fst p - dt) / dt\<rfloor>) * dt"
      by (simp add: algebra_simps)
    moreover have "(integrate dt ^^ Suc (nat \<lfloor>(fst p - dt) / dt\<rfloor>)) (snd p) =
                   (integrate dt ^^ nat \<lfloor>(fst p - dt) / dt\<rfloor>) (integrate dt (snd p))"
      by (simp add: funpow_swap1)
    ultimately show ?thesis
      using k by (simp only: substeps_go [OF True] fst_conv)
  qed
qed

lemma substeps_chunks:
  assumes "0 < dt" and "0 \<le> b"
  shows "\<exists>q r. substeps integrate dt p = Some q \<and>
               substeps integrate dt (fst q + b, snd q) = Some r \<and>
               substeps integrate dt (fst p + b, snd p) = Some r"
proof (induction "nat \<lfloor>fst p / dt\<rfloor>" arbitrary: p rule: less_induct)
  case less
  show ?case
  proof (cases "dt \<le> fst p")
    case False
    then have 1: "substeps integrate dt p = Some p"
      by (rule substeps_stop)
    obtain r where 2: "substeps integrate dt (fst p + b, snd p) = Some r"
      using substeps_closed_form [OF assms(1), of integrate "(fst p + b, snd p)"] by blast
    from 1 2 show ?thesis by blast
  next
    case True
    let ?p' = "(fst p - dt, integrate dt (snd p))"
    have "nat \<lfloor>fst p / dt\<rfloor> = Suc (nat \<lfloor>fst ?p' / dt\<rfloor>)"
      using substeps_measure [OF assms(1) True] by simp
    then have "nat \<lfloor>fst ?p' / dt\<rfloor> < nat \<lfloor>fst p / dt\<rfloor>" by simp
    from less [OF this]
    obtain q r where q: "substeps integrate dt ?p' = Some q"
      and r: "substeps integrate dt (fst q + b, snd q) = Some r"
      and pr: "substeps integrate dt (fst ?p' + b, snd ?p') = Some r"
      by blast
    have 1: "substeps integrate dt p = Some q"
      using q by (simp add: substeps_go [OF True])
    have "dt \<le> fst (fst p + b, snd p)" using True assms(2) by simp
    from substeps_go [OF this, of integrate]
    have "substeps integrate dt (fst p + b, snd p) =
            substeps integrate dt (fst p + b - dt, integrate dt (snd p))"
      by simp
    also have "fst p + b - dt = fst ?p' + b" by simp
    finally have 2: "substeps integrate dt (fst p + b, snd p) = Some r"
      using pr by simp
    from 1 r 2 show ?thesis by blast
  qed
qed

text \<open>
  C2. For the step \<open>timeStep = 1/60\<close> and non-negative \<open>a\<close> and \<open>b\<close>, the spec's
  \<^verbatim>\<open>step\<close> returns for \<open>a\<close>, for \<open>b\<close> after it, and for \<open>a + b\<close> at once, and the two ways
  end in the same accumulator and the same simulation state: the state after
  \<open>\<lfloor>(accumulator + a + b) / timeStep\<rfloor>\<close> substeps, whatever a substep does.
\<close>

theorem step_independent_of_chunking:
  assumes "0 \<le> a" and "0 \<le> b"
  shows "\<exists>p1 p2.
      PhysicsWorld_step integrate timeStep a p = Some p1 \<and>
      PhysicsWorld_step integrate timeStep b p1 = Some p2 \<and>
      PhysicsWorld_step integrate timeStep (a + b) p = Some p2 \<and>
      p2 = (fst p + (a + b) - real (nat \<lfloor>(fst p + (a + b)) / timeStep\<rfloor>) * timeStep,
            (integrate timeStep ^^ nat \<lfloor>(fst p + (a + b)) / timeStep\<rfloor>) (snd p))"
proof -
  have dt: "0 < timeStep" by (simp add: timeStep_def)
  from substeps_chunks [OF dt assms(2), of integrate "(fst p + a, snd p)"]
  obtain q r where q: "substeps integrate timeStep (fst p + a, snd p) = Some q"
    and r: "substeps integrate timeStep (fst q + b, snd q) = Some r"
    and pr: "substeps integrate timeStep (fst p + a + b, snd p) = Some r"
    by auto
  have s: "fst p + (a + b) = fst p + a + b" by simp
  have c: "r = (fst p + (a + b) - real (nat \<lfloor>(fst p + (a + b)) / timeStep\<rfloor>) * timeStep,
            (integrate timeStep ^^ nat \<lfloor>(fst p + (a + b)) / timeStep\<rfloor>) (snd p))"
    using pr substeps_closed_form [OF dt, of integrate "(fst p + a + b, snd p)"]
    by (simp add: s)
  show ?thesis
    using q r pr c by (simp add: PhysicsWorld_step_def s)
qed

theorem step_independent_of_chunking_witness:
  "(0 :: real) \<le> 1 / 40 \<and>
   PhysicsWorld_step (\<lambda>dt n. Suc n) timeStep (1 / 40) (0, 0) = Some (1 / 120, 1) \<and>
   PhysicsWorld_step (\<lambda>dt n. Suc n) timeStep (1 / 40) (1 / 120, 1) = Some (0, 3) \<and>
   PhysicsWorld_step (\<lambda>dt n. Suc n) timeStep (1 / 40 + 1 / 40) (0, 0) = Some (0, 3)"
proof -
  have h: "(0 :: real) \<le> 1 / 40" by simp
  have 1: "PhysicsWorld_step (\<lambda>dt n. Suc n) timeStep (1 / 40) (0, 0) = Some (1 / 120, 1)"
    by (simp add: PhysicsWorld_step_def timeStep_def substeps.simps)
  from step_independent_of_chunking [OF h h, of "\<lambda>dt n. Suc n" "(0, 0)"]
  obtain p1 p2 where
    a: "PhysicsWorld_step (\<lambda>dt n. Suc n) timeStep (1 / 40) (0, 0) = Some p1"
    and b: "PhysicsWorld_step (\<lambda>dt n. Suc n) timeStep (1 / 40) p1 = Some p2"
    and c: "PhysicsWorld_step (\<lambda>dt n. Suc n) timeStep (1 / 40 + 1 / 40) (0, 0) = Some p2"
    by auto
  have 3: "PhysicsWorld_step (\<lambda>dt n. Suc n) timeStep (1 / 40 + 1 / 40) (0, 0) = Some (0, 3)"
    by (simp add: PhysicsWorld_step_def timeStep_def substeps.simps)
  from a 1 have "p1 = (1 / 120, 1)" by simp
  moreover from c 3 have "p2 = (0, 3)" by simp
  ultimately show ?thesis using h 1 b 3 by simp
qed

end
